theory Spec2Isabelle
  imports Complex_Main
begin

section \<open>The test-flag module: module-level strategies and \<open>build_flag\<close>\<close>

text \<open>
  \<open>test_parameter_flags.py\<close> declares eleven module-level \<open>DynamicFlag\<close> objects, each
  holding a hypothesis search strategy, a dictionary \<open>flags_mapping\<close> from flag keys to the
  names of those variables, and \<open>build_flag\<close>, which overwrites the strategy of the
  variable a key is mapped to. The strategies are kept symbolic: the model records which
  strategy expression a flag holds, not what the property-testing library draws from it.
\<close>

datatype SearchStrategy =
    st_booleans
  | st_just bool
  | st_just_list "bool list"
  | st_lists SearchStrategy nat nat
  | gradient_strategy
  | as_varaible_strategy

text \<open>\<open>strategy\<close> is \<open>None\<close> after \<open>build_flag key None\<close>, which stores the value as it is.\<close>

record DynamicFlag =
  strategy :: "SearchStrategy option"

datatype py_error = KeyError | AssertionError | IndexError | ValueError | TypeError

text \<open>
  A module-level name is bound either to a \<open>DynamicFlag\<close> or to something else (an
  imported module, a function, a class, the mapping itself).
\<close>

datatype pyobject = Flag DynamicFlag | Other

type_synonym globals = "string \<rightharpoonup> pyobject"

text \<open>The module's global names in the order the source binds them (lines 1 to 434).\<close>

definition module_bindings :: "(string \<times> pyobject) list" where
  "module_bindings =
    [(''abc'', Other), (''st'', Other), (''test_globals'', Other), (''BackendHandler'', Other),
     (''dataclass'', Other), (''SearchStrategy'', Other), (''DynamicFlag'', Other),
     (''_gradient_strategy'', Other), (''_as_varaible_strategy'', Other),
     (''BuiltNativeArrayStrategy'', Flag \<lparr>strategy = Some (st_lists st_booleans 1 1)\<rparr>),
     (''BuiltAsVariableStrategy'', Flag \<lparr>strategy = Some as_varaible_strategy\<rparr>),
     (''BuiltContainerStrategy'', Flag \<lparr>strategy = Some (st_lists st_booleans 1 1)\<rparr>),
     (''BuiltInstanceStrategy'', Flag \<lparr>strategy = Some st_booleans\<rparr>),
     (''BuiltInplaceStrategy'', Flag \<lparr>strategy = Some (st_just False)\<rparr>),
     (''BuiltGradientStrategy'', Flag \<lparr>strategy = Some gradient_strategy\<rparr>),
     (''BuiltWithOutStrategy'', Flag \<lparr>strategy = Some st_booleans\<rparr>),
     (''BuiltCompileStrategy'', Flag \<lparr>strategy = Some st_booleans\<rparr>),
     (''BuiltFrontendArrayStrategy'', Flag \<lparr>strategy = Some st_booleans\<rparr>),
     (''BuiltTranspileStrategy'', Flag \<lparr>strategy = Some (st_just False)\<rparr>),
     (''BuiltPrecisionModeStrategy'', Flag \<lparr>strategy = Some st_booleans\<rparr>),
     (''flags_mapping'', Other), (''build_flag'', Other), (''TestFlags'', Other),
     (''FunctionTestFlags'', Other), (''function_flags'', Other),
     (''FrontendFunctionTestFlags'', Other), (''frontend_function_flags'', Other),
     (''InitMethodTestFlags'', Other), (''init_method_flags'', Other),
     (''MethodTestFlags'', Other), (''method_flags'', Other),
     (''FrontendMethodTestFlags'', Other), (''frontend_method_flags'', Other)]"

definition module_globals :: globals where
  "module_globals = map_of module_bindings"

definition flags_mapping :: "(string \<times> string) list" where
  "flags_mapping =
    [(''native_array'', ''BuiltNativeArrayStrategy''),
     (''as_variable'', ''BuiltAsVariableStrategy''),
     (''container'', ''BuiltContainerStrategy''),
     (''instance_method'', ''BuiltInstanceStrategy''),
     (''test_gradients'', ''BuiltGradientStrategy''),
     (''with_out'', ''BuiltWithOutStrategy''),
     (''inplace'', ''BuiltInplace''),
     (''test_compile'', ''BuiltCompileStrategy''),
     (''transpile'', ''BuiltTranspileStrategy''),
     (''precision_mode'', ''BuiltPrecisionModeStrategy'')]"

text \<open>
  \<open>build_flag key v\<close> on the globals \<open>g\<close>. The flag value is \<open>Optional[bool]\<close>: a value that
  is not \<open>None\<close> is wrapped as \<open>st.just v\<close>. \<open>flags_mapping[key]\<close> raises \<open>KeyError\<close> for an
  unknown key, the assertion raises \<open>AssertionError\<close> when the mapped name is not a global,
  and the assignment replaces the \<open>strategy\<close> attribute of the object bound to that name.
  Assigning the attribute on an object that is not a \<open>DynamicFlag\<close> changes nothing the
  model records.
\<close>

definition build_flag :: "globals \<Rightarrow> string \<Rightarrow> bool option \<Rightarrow> py_error + globals" where
  "build_flag g key v =
    (let v' = (case v of None \<Rightarrow> None | Some b \<Rightarrow> Some (st_just b)) in
     case map_of flags_mapping key of
       None \<Rightarrow> Inl KeyError
     | Some name \<Rightarrow>
         (if name \<notin> dom g then Inl AssertionError
          else case g name of
                 Some (Flag f) \<Rightarrow> Inr (g(name \<mapsto> Flag (f\<lparr>strategy := v'\<rparr>)))
               | _ \<Rightarrow> Inr g))"

section \<open>The test-flag module: flag holders and \<open>apply_flags\<close>\<close>

text \<open>
  The five flag-holder classes, each with the arguments of its \<open>__init__\<close> in their order:
  \<^item> \<open>FunctionTestFlags\<close>: \<open>ground_truth_backend\<close>, \<open>num_positional_args\<close>, \<open>with_out\<close>,
    \<open>instance_method\<close>, \<open>as_variable\<close>, \<open>native_arrays\<close>, \<open>container\<close>, \<open>test_gradients\<close>,
    \<open>test_compile\<close>, \<open>precision_mode\<close>;
  \<^item> \<open>FrontendFunctionTestFlags\<close>: \<open>num_positional_args\<close>, \<open>with_out\<close>, \<open>inplace\<close>,
    \<open>as_variable\<close>, \<open>native_arrays\<close>, \<open>test_compile\<close>, \<open>generate_frontend_arrays\<close>,
    \<open>transpile\<close>, \<open>precision_mode\<close>;
  \<^item> \<open>InitMethodTestFlags\<close>: \<open>num_positional_args\<close>, \<open>as_variable\<close>, \<open>native_arrays\<close>,
    \<open>precision_mode\<close>;
  \<^item> \<open>MethodTestFlags\<close>: \<open>num_positional_args\<close>, \<open>as_variable\<close>, \<open>native_arrays\<close>,
    \<open>container_flags\<close> (stored as \<open>container\<close>), \<open>precision_mode\<close>;
  \<^item> \<open>FrontendMethodTestFlags\<close>: \<open>num_positional_args\<close>, \<open>as_variable\<close>, \<open>native_arrays\<close>,
    \<open>precision_mode\<close>, \<open>test_compile\<close>.
  The three list-valued flags are lists of booleans.
\<close>

datatype TestFlags =
    FunctionTestFlags string nat bool bool "bool list" "bool list" "bool list" bool bool bool
  | FrontendFunctionTestFlags nat bool bool "bool list" "bool list" bool bool bool bool
  | InitMethodTestFlags nat "bool list" "bool list" bool
  | MethodTestFlags nat "bool list" "bool list" "bool list" bool
  | FrontendMethodTestFlags nat "bool list" "bool list" bool bool

text \<open>The attributes \<open>apply_flags\<close> reads. Three of the classes have no \<open>container\<close>.\<close>

fun as_variable :: "TestFlags \<Rightarrow> bool list" where
  "as_variable (FunctionTestFlags g n w im av na co tg tc pm) = av"
| "as_variable (FrontendFunctionTestFlags n w ip av na tc gf tr pm) = av"
| "as_variable (InitMethodTestFlags n av na pm) = av"
| "as_variable (MethodTestFlags n av na co pm) = av"
| "as_variable (FrontendMethodTestFlags n av na pm tc) = av"

fun native_arrays :: "TestFlags \<Rightarrow> bool list" where
  "native_arrays (FunctionTestFlags g n w im av na co tg tc pm) = na"
| "native_arrays (FrontendFunctionTestFlags n w ip av na tc gf tr pm) = na"
| "native_arrays (InitMethodTestFlags n av na pm) = na"
| "native_arrays (MethodTestFlags n av na co pm) = na"
| "native_arrays (FrontendMethodTestFlags n av na pm tc) = na"

fun container :: "TestFlags \<Rightarrow> bool list option" where
  "container (FunctionTestFlags g n w im av na co tg tc pm) = Some co"
| "container (FrontendFunctionTestFlags n w ip av na tc gf tr pm) = None"
| "container (InitMethodTestFlags n av na pm) = None"
| "container (MethodTestFlags n av na co pm) = Some co"
| "container (FrontendMethodTestFlags n av na pm tc) = None"

text \<open>A nested dictionary with string keys, as \<open>{"a": x, "b": {"c": x, "d": x}}\<close> is.\<close>

datatype 'x pydict = Leaf 'x | Dict "(string \<times> 'x pydict) list"

text \<open>
  The backend handle that \<open>BackendHandler.update_backend(backend)\<close> yields. The handler and
  the backends are not under the sources, so the four functions \<open>apply_flags\<close> calls on the
  handle are parameters: \<open>backend.array\<close>, \<open>backend.gradients._variable\<close>,
  \<open>backend.to_native\<close> and \<open>backend.Container\<close>.
\<close>

record ('raw, 'dt, 'dev, 'x) backend =
  array :: "'raw \<Rightarrow> 'dt \<Rightarrow> 'dev \<Rightarrow> 'x"
  gradients_variable :: "'x \<Rightarrow> 'x"
  to_native :: "'x \<Rightarrow> 'x"
  Container :: "'x pydict \<Rightarrow> 'x"

text \<open>
  Python list indexing: an index from \<open>-len\<close> up to \<open>len - 1\<close> is valid, a negative one counts
  from the end, and any other raises \<open>IndexError\<close>.
\<close>

definition valid_index :: "'a list \<Rightarrow> int \<Rightarrow> bool" where
  "valid_index xs i = (- int (length xs) \<le> i \<and> i < int (length xs))"

definition py_get :: "'a list \<Rightarrow> int \<Rightarrow> 'a" where
  "py_get xs i = xs ! nat (if i < 0 then int (length xs) + i else i)"

definition py_index :: "'a list \<Rightarrow> int \<Rightarrow> py_error + 'a" where
  "py_index xs i = (if valid_index xs i then Inr (py_get xs i) else Inl IndexError)"

definition container_of :: "'x \<Rightarrow> 'x pydict" where
  "container_of x = Dict [(''a'', Leaf x), (''b'', Dict [(''c'', Leaf x), (''d'', Leaf x)])]"

text \<open>
  The body of the loop for the holders without a container flag (\<open>FrontendFunctionTestFlags\<close>,
  \<open>InitMethodTestFlags\<close>, \<open>FrontendMethodTestFlags\<close>) and for those with one
  (\<open>FunctionTestFlags\<close>, \<open>MethodTestFlags\<close>), which wrap the value last. \<open>i\<close> is the index
  \<open>enumerate\<close> gives, starting at \<open>offset\<close>.
\<close>

definition flag_step ::
  "('raw, 'dt, 'dev, 'x) backend \<Rightarrow> bool list \<Rightarrow> bool list \<Rightarrow> 'dt list \<Rightarrow> 'dev \<Rightarrow> int \<Rightarrow> 'raw
   \<Rightarrow> py_error + 'x" where
  "flag_step B av na input_dtypes on_device i entry =
    (case py_index input_dtypes i of
       Inl e \<Rightarrow> Inl e
     | Inr dt \<Rightarrow>
         (let x = array B entry dt on_device
          in case py_index av i of
               Inl e \<Rightarrow> Inl e
             | Inr v \<Rightarrow>
                 (let x = (if v then gradients_variable B x else x)
                  in case py_index na i of
                       Inl e \<Rightarrow> Inl e
                     | Inr n \<Rightarrow> Inr (if n then to_native B x else x))))"

definition flag_step_container ::
  "('raw, 'dt, 'dev, 'x) backend \<Rightarrow> bool list \<Rightarrow> bool list \<Rightarrow> bool list \<Rightarrow> 'dt list \<Rightarrow> 'dev
   \<Rightarrow> int \<Rightarrow> 'raw \<Rightarrow> py_error + 'x" where
  "flag_step_container B av na co input_dtypes on_device i entry =
    (case flag_step B av na input_dtypes on_device i entry of
       Inl e \<Rightarrow> Inl e
     | Inr x \<Rightarrow>
         (case py_index co i of
            Inl e \<Rightarrow> Inl e
          | Inr c \<Rightarrow> Inr (if c then Container B (container_of x) else x)))"

text \<open>The \<open>for\<close> loop: \<open>ret\<close> is the list built so far, and each value is appended to it.\<close>

fun apply_loop ::
  "(int \<Rightarrow> 'raw \<Rightarrow> py_error + 'x) \<Rightarrow> int \<Rightarrow> 'x list \<Rightarrow> 'raw list \<Rightarrow> py_error + 'x list" where
  "apply_loop step i ret [] = Inr ret"
| "apply_loop step i ret (entry # rest) =
     (case step i entry of
        Inl e \<Rightarrow> Inl e
      | Inr x \<Rightarrow> apply_loop step (i + 1) (ret @ [x]) rest)"

text \<open>
  \<open>apply_flags\<close>, one equation per class: the list the loop has built, or the exception
  that left the loop.
\<close>

fun apply_flags ::
  "('raw, 'dt, 'dev, 'x) backend \<Rightarrow> TestFlags \<Rightarrow> 'raw list \<Rightarrow> 'dt list \<Rightarrow> int \<Rightarrow> 'dev
   \<Rightarrow> py_error + 'x list" where
  "apply_flags B (FunctionTestFlags g n w im av na co tg tc pm) args input_dtypes offset on_device =
     apply_loop (flag_step_container B av na co input_dtypes on_device) offset [] args"
| "apply_flags B (FrontendFunctionTestFlags n w ip av na tc gf tr pm) args input_dtypes offset on_device =
     apply_loop (flag_step B av na input_dtypes on_device) offset [] args"
| "apply_flags B (InitMethodTestFlags n av na pm) args input_dtypes offset on_device =
     apply_loop (flag_step B av na input_dtypes on_device) offset [] args"
| "apply_flags B (MethodTestFlags n av na co pm) args input_dtypes offset on_device =
     apply_loop (flag_step_container B av na co input_dtypes on_device) offset [] args"
| "apply_flags B (FrontendMethodTestFlags n av na pm tc) args input_dtypes offset on_device =
     apply_loop (flag_step B av na input_dtypes on_device) offset [] args"

text \<open>
  What the claim says of one entry, in its words: the raw value as a backend array of the
  dtype at index \<open>i\<close>, then a variable if \<open>as_variable[i]\<close>, then a native array if
  \<open>native_arrays[i]\<close>, then (for a holder with a container flag) the container
  \<open>{"a": x, "b": {"c": x, "d": x}}\<close> if \<open>container[i]\<close>.
\<close>

definition flagged_entry ::
  "('raw, 'dt, 'dev, 'x) backend \<Rightarrow> TestFlags \<Rightarrow> 'dt list \<Rightarrow> 'dev \<Rightarrow> int \<Rightarrow> 'raw \<Rightarrow> 'x" where
  "flagged_entry B self input_dtypes on_device i entry =
    (let x = array B entry (py_get input_dtypes i) on_device;
         x = (if py_get (as_variable self) i then gradients_variable B x else x);
         x = (if py_get (native_arrays self) i then to_native B x else x)
     in case container self of
          None \<Rightarrow> x
        | Some co \<Rightarrow> if py_get co i then Container B (container_of x) else x)"

text \<open>The index \<open>i\<close> is valid for every list the loop body reads at it.\<close>

definition flags_in_range :: "TestFlags \<Rightarrow> 'dt list \<Rightarrow> int \<Rightarrow> bool" where
  "flags_in_range self input_dtypes i =
    (valid_index input_dtypes i \<and> valid_index (as_variable self) i \<and>
     valid_index (native_arrays self) i \<and>
     (case container self of None \<Rightarrow> True | Some co \<Rightarrow> valid_index co i))"

text \<open>
  A backend for the closed instances: every function of the handle is a constructor, so a
  materialized value shows what was applied to it, in which order.
\<close>

datatype ('raw, 'dt, 'dev) materialized =
    Array 'raw 'dt 'dev
  | Variable "('raw, 'dt, 'dev) materialized"
  | Native "('raw, 'dt, 'dev) materialized"
  | ContainerOf "('raw, 'dt, 'dev) materialized pydict"

definition symbolic_backend :: "('raw, 'dt, 'dev, ('raw, 'dt, 'dev) materialized) backend" where
  "symbolic_backend =
    \<lparr>array = Array, gradients_variable = Variable, to_native = Native, Container = ContainerOf\<rparr>"

definition one_element_flags :: TestFlags where
  "one_element_flags =
    FunctionTestFlags ''numpy'' 2 False False [True] [False] [False] False False False"

definition two_element_flags :: TestFlags where
  "two_element_flags =
    FunctionTestFlags ''numpy'' 2 False False [True, False] [False, True] [False, True]
      False False False"

section \<open>The elementwise adapter: tensors, dtypes and the native library\<close>

text \<open>
  \<open>elementwise.py\<close> wraps the kernels of the native tensor library. A tensor is modelled by
  its dtype, its shape and the flat list of its elements; the element type \<open>'v\<close> is left
  open. The dtypes are those of the native library.
\<close>

datatype dtype =
    paddle_bool | paddle_int8 | paddle_int16 | paddle_int32 | paddle_int64 | paddle_uint8
  | paddle_float16 | paddle_bfloat16 | paddle_float32 | paddle_float64
  | paddle_complex64 | paddle_complex128

record 'v tensor =
  dtype :: dtype
  shape :: "nat list"
  vals :: "'v list"

text \<open>
  Python floats: a finite value or one of the IEEE special values (\<open>float("inf")\<close>,
  \<open>float("-inf")\<close>, \<open>float("nan")\<close>). Finite values are reals: rounding is not modelled.
\<close>

datatype fl = Fin real | PInf | NInf | NaN

datatype pyscalar = PyBool bool | PyInt int | PyFloat fl | PyComplex fl fl

text \<open>An operand of type \<open>Union[float, paddle.Tensor]\<close>.\<close>

datatype 'v operand = Scalar pyscalar | Tensor "'v tensor"

text \<open>The native kernels the adapter calls, by their names in the native library.\<close>

datatype unary_kernel =
    K_abs | K_acos | K_acosh | K_angle | K_asin | K_asinh | K_atan | K_atanh
  | K_bitwise_not | K_ceil | K_cos | K_cosh | K_deg2rad | K_erf | K_floor | K_imag
  | K_isfinite | K_isinf | K_isnan | K_log | K_log1p | K_logical_not | K_neg
  | K_rad2deg | K_real | K_sgn | K_sin | K_sinh | K_sqrt | K_tan | K_tanh | K_trunc
  | K_exp | K_expm1 | K_log2 | K_log10 | K_square | K_reciprocal | K_sign

datatype binary_kernel =
    K_add | K_subtract | K_multiply | K_divide | K_atan2 | K_complex
  | K_less_than | K_less_equal | K_greater_than | K_greater_equal
  | K_logical_and | K_logical_or
  | K_pow | K_bitwise_and | K_equal

text \<open>
  Everything the adapter takes from outside \<open>elementwise.py\<close>. None of it is under the
  sources, so it is a parameter of every adapter function:
  \<^item> \<open>promote_types_of_inputs\<close> (the dtype promotion of two operands, which also turns a
    Python scalar into a tensor) and \<open>broadcast_arrays\<close>, of the surrounding library;
  \<^item> \<open>native_promote\<close>, the dtype a native binary kernel gives operands of two different
    dtypes, \<open>scalar_dtype\<close>, the dtype a Python scalar takes beside a tensor in a native
    operator, \<open>default_dtype\<close>, the dtype \<open>ivy.default_dtype(item=x)\<close> gives a Python scalar,
    and \<open>of_scalar\<close>, the element a Python scalar becomes in a dtype;
  \<^item> \<open>cast\<close>, the element conversion of \<open>Tensor.astype\<close> (source dtype, target dtype);
  \<^item> \<open>truthy\<close>, whether an element counts as true, for \<open>where\<close>;
  \<^item> \<open>unary\<close> and \<open>binary\<close>, what a native kernel computes on one element (or one pair of
    elements) of operands of the given dtypes.
\<close>

record 'v native =
  promote_types_of_inputs :: "'v operand \<Rightarrow> 'v operand \<Rightarrow> 'v tensor \<times> 'v tensor"
  broadcast_arrays :: "'v tensor \<Rightarrow> 'v tensor \<Rightarrow> 'v tensor \<times> 'v tensor"
  native_promote :: "dtype \<Rightarrow> dtype \<Rightarrow> dtype"
  scalar_dtype :: "pyscalar \<Rightarrow> dtype \<Rightarrow> dtype"
  default_dtype :: "pyscalar \<Rightarrow> dtype"
  of_scalar :: "pyscalar \<Rightarrow> dtype \<Rightarrow> 'v"
  cast :: "dtype \<Rightarrow> dtype \<Rightarrow> 'v \<Rightarrow> 'v"
  truthy :: "'v \<Rightarrow> bool"
  unary :: "unary_kernel \<Rightarrow> dtype \<Rightarrow> 'v \<Rightarrow> 'v"
  binary :: "binary_kernel \<Rightarrow> dtype \<Rightarrow> dtype \<Rightarrow> 'v \<Rightarrow> 'v \<Rightarrow> 'v"

definition is_complex :: "'v tensor \<Rightarrow> bool" where
  "is_complex x = (dtype x \<in> set [paddle_complex64, paddle_complex128])"

text \<open>
  The result dtype of a native kernel, as the native library documents it: predicates give
  \<open>bool\<close>; \<open>real\<close>, \<open>imag\<close>, \<open>abs\<close> and \<open>angle\<close> of a complex tensor give the float dtype of
  its components; every other unary kernel keeps the dtype.
\<close>

definition unary_dtype :: "unary_kernel \<Rightarrow> dtype \<Rightarrow> dtype" where
  "unary_dtype k d =
    (if k \<in> set [K_isfinite, K_isinf, K_isnan, K_logical_not] then paddle_bool
     else if k \<in> set [K_real, K_imag, K_abs, K_angle] \<and> d = paddle_complex64 then paddle_float32
     else if k \<in> set [K_real, K_imag, K_abs, K_angle] \<and> d = paddle_complex128 then paddle_float64
     else d)"

text \<open>
  Comparisons and logical kernels give \<open>bool\<close>, \<open>paddle.complex\<close> gives the complex dtype of
  its float components, and an arithmetic kernel keeps the dtype its operands share (for
  operands of two dtypes, the library's own promotion).
\<close>

definition binary_dtype :: "'v native \<Rightarrow> binary_kernel \<Rightarrow> dtype \<Rightarrow> dtype \<Rightarrow> dtype" where
  "binary_dtype N k d1 d2 =
    (if k \<in> set [K_less_than, K_less_equal, K_greater_than, K_greater_equal,
                  K_logical_and, K_logical_or] then paddle_bool
     else if k = K_complex then (if d1 = paddle_float64 then paddle_complex128 else paddle_complex64)
     else if d1 = d2 then d1
     else native_promote N d1 d2)"

text \<open>\<open>x.astype(d)\<close>: a new tensor of dtype \<open>d\<close> and the same shape, every element converted.\<close>

definition astype :: "'v native \<Rightarrow> 'v tensor \<Rightarrow> dtype \<Rightarrow> 'v tensor" where
  "astype N x d = \<lparr>dtype = d, shape = shape x, vals = map (cast N (dtype x) d) (vals x)\<rparr>"

text \<open>A native unary kernel applies its scalar function to every element.\<close>

definition paddle1 :: "'v native \<Rightarrow> unary_kernel \<Rightarrow> 'v tensor \<Rightarrow> 'v tensor" where
  "paddle1 N k x =
    \<lparr>dtype = unary_dtype k (dtype x), shape = shape x, vals = map (unary N k (dtype x)) (vals x)\<rparr>"

text \<open>
  A native binary kernel broadcasts operands of different shapes and then combines the
  elements pairwise.
\<close>

definition paddle2 :: "'v native \<Rightarrow> binary_kernel \<Rightarrow> 'v tensor \<Rightarrow> 'v tensor \<Rightarrow> 'v tensor" where
  "paddle2 N k x y =
    (let (a, b) = (if shape x = shape y then (x, y) else broadcast_arrays N x y)
     in \<lparr>dtype = binary_dtype N k (dtype a) (dtype b), shape = shape a,
         vals = map2 (binary N k (dtype a) (dtype b)) (vals a) (vals b)\<rparr>)"

text \<open>
  A native operator between a tensor and a Python scalar (\<open>angle / 2\<close>, \<open>1 + x.imag()\<close>):
  the scalar becomes one element of the dtype \<open>scalar_dtype\<close> gives it and is combined with
  every element of the tensor, on the side it stands on.
\<close>

definition paddle2_scalar :: "'v native \<Rightarrow> binary_kernel \<Rightarrow> 'v tensor \<Rightarrow> pyscalar \<Rightarrow> 'v tensor" where
  "paddle2_scalar N k x s =
    (let sd = scalar_dtype N s (dtype x); c = of_scalar N s sd
     in \<lparr>dtype = binary_dtype N k (dtype x) sd, shape = shape x,
         vals = map (\<lambda>v. binary N k (dtype x) sd v c) (vals x)\<rparr>)"

definition scalar_paddle2 :: "'v native \<Rightarrow> binary_kernel \<Rightarrow> pyscalar \<Rightarrow> 'v tensor \<Rightarrow> 'v tensor" where
  "scalar_paddle2 N k s x =
    (let sd = scalar_dtype N s (dtype x); c = of_scalar N s sd
     in \<lparr>dtype = binary_dtype N k sd (dtype x), shape = shape x,
         vals = map (\<lambda>v. binary N k sd (dtype x) c v) (vals x)\<rparr>)"

text \<open>\<open>paddle.to_tensor(x, dtype=d).squeeze()\<close> of a Python scalar: a tensor of no dimension.\<close>

definition to_tensor :: "'v native \<Rightarrow> pyscalar \<Rightarrow> dtype \<Rightarrow> 'v tensor" where
  "to_tensor N s d = \<lparr>dtype = d, shape = [], vals = [of_scalar N s d]\<rparr>"

text \<open>\<open>paddle.zeros(shape=sh, dtype=d)\<close>.\<close>

definition zeros :: "'v native \<Rightarrow> nat list \<Rightarrow> dtype \<Rightarrow> 'v tensor" where
  "zeros N sh d = \<lparr>dtype = d, shape = sh, vals = replicate (prod_list sh) (of_scalar N (PyInt 0) d)\<rparr>"

text \<open>\<open>x.clone()\<close>: a new tensor with the dtype, shape and elements of \<open>x\<close>.\<close>

definition clone :: "'v tensor \<Rightarrow> 'v tensor" where
  "clone x = \<lparr>dtype = dtype x, shape = shape x, vals = vals x\<rparr>"

section \<open>The elementwise adapter: binary operations\<close>

text \<open>
  Every adapter function keeps its name in the source, with the native environment as its
  first argument; a function whose name is a constant of HOL already (\<open>less\<close>, \<open>sqrt\<close>,
  \<open>cos\<close>, \<open>abs\<close>, ...) carries the suffix \<open>_op\<close>. The keyword argument \<open>out\<close>, which no
  function of the module reads, is left out. The decorators \<open>with_unsupported_device_and_dtypes\<close>
  and \<open>with_supported_dtypes\<close> belong to the surrounding library; they record the dtypes a
  function is declared for, and the model is of the function bodies.
\<close>

text \<open>\<open>_elementwise_helper\<close>: promote, broadcast, and return the first operand's dtype.\<close>

definition elementwise_helper ::
  "'v native \<Rightarrow> 'v operand \<Rightarrow> 'v operand \<Rightarrow> 'v tensor \<times> 'v tensor \<times> dtype" where
  "elementwise_helper N x1 x2 =
    (let (x1, x2) = promote_types_of_inputs N x1 x2;
         (x1, x2) = broadcast_arrays N x1 x2
     in (x1, x2, dtype x1))"

definition multiply :: "'v native \<Rightarrow> 'v operand \<Rightarrow> 'v operand \<Rightarrow> 'v tensor" where
  "multiply N x1 x2 =
    (let (x1, x2, ret_dtype) = elementwise_helper N x1 x2;
         (x1, x2) =
           (if dtype x1 \<in> set [paddle_int8, paddle_int16, paddle_uint8, paddle_float16]
            then (astype N x1 paddle_float32, astype N x2 paddle_float32) else (x1, x2))
     in astype N (paddle2 N K_multiply x1 x2) ret_dtype)"

text \<open>
  \<open>alpha not in (1, None)\<close> compares with \<open>==\<close>: the Python scalars equal to \<open>1\<close> are
  \<open>1\<close>, \<open>1.0\<close>, \<open>True\<close> and \<open>1+0j\<close>.
\<close>

fun py_eq_1 :: "pyscalar \<Rightarrow> bool" where
  "py_eq_1 (PyBool b) = b"
| "py_eq_1 (PyInt i) = (i = 1)"
| "py_eq_1 (PyFloat f) = (f = Fin 1)"
| "py_eq_1 (PyComplex re im) = (re = Fin 1 \<and> im = Fin 0)"

definition alpha_not_in_1_None :: "pyscalar option \<Rightarrow> bool" where
  "alpha_not_in_1_None alpha = (case alpha of None \<Rightarrow> False | Some a \<Rightarrow> \<not> py_eq_1 a)"

definition add :: "'v native \<Rightarrow> 'v operand \<Rightarrow> 'v operand \<Rightarrow> pyscalar option \<Rightarrow> 'v tensor" where
  "add N x1 x2 alpha =
    (let (x1, x2, ret_dtype) = elementwise_helper N x1 x2;
         (x1, x2) =
           (if dtype x1 \<in> set [paddle_int8, paddle_uint8, paddle_float16, paddle_bool,
                                 paddle_bfloat16]
            then (astype N x1 paddle_float32, astype N x2 paddle_float32) else (x1, x2));
         (x1, x2) =
           (case alpha of
              None \<Rightarrow> (x1, x2)
            | Some a \<Rightarrow>
                if py_eq_1 a then (x1, x2)
                else promote_types_of_inputs N (Tensor x1)
                       (Tensor (multiply N (Tensor x2) (Scalar a))))
     in astype N (paddle2 N K_add x1 x2) ret_dtype)"

definition subtract :: "'v native \<Rightarrow> 'v operand \<Rightarrow> 'v operand \<Rightarrow> pyscalar option \<Rightarrow> 'v tensor" where
  "subtract N x1 x2 alpha =
    (let (x1, x2, ret_dtype) = elementwise_helper N x1 x2;
         (x1, x2) =
           (if dtype x1 \<in> set [paddle_int8, paddle_uint8, paddle_float16, paddle_bool]
            then (astype N x1 paddle_float32, astype N x2 paddle_float32) else (x1, x2));
         (x1, x2) =
           (case alpha of
              None \<Rightarrow> (x1, x2)
            | Some a \<Rightarrow>
                if py_eq_1 a then (x1, x2)
                else promote_types_of_inputs N (Tensor x1)
                       (Tensor (multiply N (Tensor x2) (Scalar a))))
     in astype N (paddle2 N K_subtract x1 x2) ret_dtype)"

definition logical_and :: "'v native \<Rightarrow> 'v operand \<Rightarrow> 'v operand \<Rightarrow> 'v tensor" where
  "logical_and N x1 x2 =
    (let (x1, x2, ret_dtype) = elementwise_helper N x1 x2
     in if ret_dtype \<in> set [paddle_uint8, paddle_float16, paddle_complex64, paddle_complex128]
        then paddle2 N K_logical_and (astype N x1 paddle_float32) (astype N x2 paddle_float32)
        else paddle2 N K_logical_and x1 x2)"

text \<open>
  The four comparisons. On complex operands \<open>less\<close> and \<open>less_equal\<close> combine the two
  component comparisons with the adapter's \<open>logical_and\<close>, \<open>greater\<close> and \<open>greater_equal\<close>
  with the native one. No branch casts the result.
\<close>

definition less_op :: "'v native \<Rightarrow> 'v operand \<Rightarrow> 'v operand \<Rightarrow> 'v tensor" where
  "less_op N x1 x2 =
    (let (x1, x2, ret_dtype) = elementwise_helper N x1 x2
     in if dtype x1 \<in> set [paddle_int8, paddle_uint8, paddle_complex64, paddle_complex128]
        then (if is_complex x1
              then (let real_part = paddle2 N K_less_than (paddle1 N K_real x1) (paddle1 N K_real x2);
                        imag_part = paddle2 N K_less_than (paddle1 N K_imag x1) (paddle1 N K_imag x2)
                    in logical_and N (Tensor real_part) (Tensor imag_part))
              else paddle2 N K_less_than (astype N x1 paddle_float32) (astype N x2 paddle_float32))
        else paddle2 N K_less_than x1 x2)"

definition less_equal :: "'v native \<Rightarrow> 'v operand \<Rightarrow> 'v operand \<Rightarrow> 'v tensor" where
  "less_equal N x1 x2 =
    (let (x1, x2, ret_dtype) = elementwise_helper N x1 x2
     in if dtype x1 \<in> set [paddle_int8, paddle_uint8, paddle_complex64, paddle_complex128]
        then (if is_complex x1
              then (let real_part = paddle2 N K_less_equal (paddle1 N K_real x1) (paddle1 N K_real x2);
                        imag_part = paddle2 N K_less_equal (paddle1 N K_imag x1) (paddle1 N K_imag x2)
                    in logical_and N (Tensor real_part) (Tensor imag_part))
              else paddle2 N K_less_equal (astype N x1 paddle_float32) (astype N x2 paddle_float32))
        else paddle2 N K_less_equal x1 x2)"

definition greater_op :: "'v native \<Rightarrow> 'v operand \<Rightarrow> 'v operand \<Rightarrow> 'v tensor" where
  "greater_op N x1 x2 =
    (let (x1, x2, ret_dtype) = elementwise_helper N x1 x2
     in if dtype x1 \<in> set [paddle_int8, paddle_uint8, paddle_complex64, paddle_complex128]
        then (if is_complex x1
              then (let real_part = paddle2 N K_greater_than (paddle1 N K_real x1) (paddle1 N K_real x2);
                        imag_part = paddle2 N K_greater_than (paddle1 N K_imag x1) (paddle1 N K_imag x2)
                    in paddle2 N K_logical_and real_part imag_part)
              else paddle2 N K_greater_than (astype N x1 paddle_float32) (astype N x2 paddle_float32))
        else paddle2 N K_greater_than x1 x2)"

definition greater_equal :: "'v native \<Rightarrow> 'v operand \<Rightarrow> 'v operand \<Rightarrow> 'v tensor" where
  "greater_equal N x1 x2 =
    (let (x1, x2, ret_dtype) = elementwise_helper N x1 x2
     in if dtype x1 \<in> set [paddle_int8, paddle_uint8, paddle_complex64, paddle_complex128]
        then (if is_complex x1
              then (let real_part = paddle2 N K_greater_equal (paddle1 N K_real x1) (paddle1 N K_real x2);
                        imag_part = paddle2 N K_greater_equal (paddle1 N K_imag x1) (paddle1 N K_imag x2)
                    in paddle2 N K_logical_and real_part imag_part)
              else paddle2 N K_greater_equal (astype N x1 paddle_float32) (astype N x2 paddle_float32))
        else paddle2 N K_greater_equal x1 x2)"

section \<open>The elementwise adapter: unary operations\<close>

text \<open>
  \<open>_determine_sqrt_dtype_cast\<close> returns a pair of dtype names or \<open>(None, None)\<close>. A dtype
  name is a non-empty string, so \<open>if intermediate_dtype:\<close> holds exactly when it is not
  \<open>None\<close>.
\<close>

definition determine_sqrt_dtype_cast :: "dtype \<Rightarrow> dtype option \<times> dtype option" where
  "determine_sqrt_dtype_cast d =
    (if d \<in> set [paddle_int8, paddle_int16, paddle_int32, paddle_uint8, paddle_bool]
     then (Some paddle_float32, Some paddle_float32)
     else if d = paddle_int64 then (Some paddle_float64, Some paddle_float64)
     else if d = paddle_float16 then (Some paddle_float32, Some paddle_float16)
     else if d = paddle_bfloat16 then (Some paddle_float32, Some paddle_bfloat16)
     else (None, None))"

text \<open>
  \<open>sqrt\<close> is the one adapter function with a \<open>raise\<close> of its own. \<open>astype(None)\<close> is a
  \<open>TypeError\<close> of the native library.
\<close>

definition sqrt_op :: "'v native \<Rightarrow> 'v tensor \<Rightarrow> py_error + 'v tensor" where
  "sqrt_op N x =
    (if is_complex x
     then (let angle = paddle1 N K_angle x
           in Inr (paddle2 N K_multiply
                     (paddle2 N K_complex
                        (paddle1 N K_cos (paddle2_scalar N K_divide angle (PyInt 2)))
                        (paddle1 N K_sin (paddle2_scalar N K_divide angle (PyInt 2))))
                     (paddle1 N K_sqrt (paddle1 N K_abs x))))
     else if dtype x \<in> set [paddle_float32, paddle_float64] then Inr (paddle1 N K_sqrt x)
     else (let (intermediate_dtype, output_dtype) = determine_sqrt_dtype_cast (dtype x)
           in case intermediate_dtype of
                Some idt \<Rightarrow>
                  (let result = paddle1 N K_sqrt (astype N x idt)
                   in case output_dtype of
                        Some odt \<Rightarrow> Inr (astype N result odt)
                      | None \<Rightarrow> Inl TypeError)
              | None \<Rightarrow> Inl ValueError))"

definition cosh_op :: "'v native \<Rightarrow> 'v tensor \<Rightarrow> 'v tensor" where
  "cosh_op N x =
    (if dtype x \<in> set [paddle_int8, paddle_int16, paddle_int32, paddle_int64, paddle_uint8,
                        paddle_float16]
     then astype N (paddle1 N K_cosh (astype N x paddle_float32)) (dtype x)
     else if is_complex x
     then (let re = paddle1 N K_real x; im = paddle1 N K_imag x
           in paddle2 N K_complex
                (paddle2 N K_multiply (paddle1 N K_cosh re) (paddle1 N K_cos im))
                (paddle2 N K_multiply (paddle1 N K_sinh re) (paddle1 N K_sin im)))
     else paddle1 N K_cosh x)"

definition sin_op :: "'v native \<Rightarrow> 'v tensor \<Rightarrow> 'v tensor" where
  "sin_op N x =
    (if dtype x \<in> set [paddle_int8, paddle_int16, paddle_int32, paddle_int64, paddle_uint8,
                        paddle_float16]
     then astype N (paddle1 N K_sin (astype N x paddle_float32)) (dtype x)
     else if is_complex x
     then (let re = paddle1 N K_real x; im = paddle1 N K_imag x
           in paddle2 N K_complex
                (paddle2 N K_multiply (paddle1 N K_sin re) (paddle1 N K_cosh im))
                (paddle2 N K_multiply (paddle1 N K_cos re) (paddle1 N K_sinh im)))
     else paddle1 N K_sin x)"

section \<open>A reference environment over IEEE values\<close>

text \<open>
  The theorems on values need the meaning of the native kernels on the special values of
  IEEE arithmetic. The elements of this environment are \<open>fl\<close> values; a boolean element is
  \<open>Fin 1\<close> or \<open>Fin 0\<close>. Finite arithmetic is exact.
\<close>

definition fl_of_bool :: "bool \<Rightarrow> fl" where
  "fl_of_bool b = (if b then Fin 1 else Fin 0)"

fun fl_neg :: "fl \<Rightarrow> fl" where
  "fl_neg NaN = NaN"
| "fl_neg PInf = NInf"
| "fl_neg NInf = PInf"
| "fl_neg (Fin a) = Fin (- a)"

text \<open>Addition: a NaN operand gives NaN, and so do infinities of opposite signs.\<close>

fun fl_add :: "fl \<Rightarrow> fl \<Rightarrow> fl" where
  "fl_add NaN _ = NaN"
| "fl_add _ NaN = NaN"
| "fl_add PInf NInf = NaN"
| "fl_add NInf PInf = NaN"
| "fl_add PInf _ = PInf"
| "fl_add NInf _ = NInf"
| "fl_add (Fin a) PInf = PInf"
| "fl_add (Fin a) NInf = NInf"
| "fl_add (Fin a) (Fin b) = Fin (a + b)"

definition fl_sub :: "fl \<Rightarrow> fl \<Rightarrow> fl" where
  "fl_sub a b = fl_add a (fl_neg b)"

text \<open>The IEEE order: every comparison with a NaN operand is false.\<close>

fun fl_le :: "fl \<Rightarrow> fl \<Rightarrow> bool" where
  "fl_le NaN _ = False"
| "fl_le _ NaN = False"
| "fl_le NInf _ = True"
| "fl_le _ PInf = True"
| "fl_le PInf _ = False"
| "fl_le _ NInf = False"
| "fl_le (Fin a) (Fin b) = (a \<le> b)"

fun fl_lt :: "fl \<Rightarrow> fl \<Rightarrow> bool" where
  "fl_lt NaN _ = False"
| "fl_lt _ NaN = False"
| "fl_lt PInf _ = False"
| "fl_lt _ NInf = False"
| "fl_lt NInf _ = True"
| "fl_lt _ PInf = True"
| "fl_lt (Fin a) (Fin b) = (a < b)"

text \<open>
  The kernels this environment gives a meaning to. A kernel that is not listed is left
  unspecified: no theorem below evaluates it.
\<close>

fun reference_unary :: "unary_kernel \<Rightarrow> dtype \<Rightarrow> fl \<Rightarrow> fl" where
  "reference_unary K_isnan d v = fl_of_bool (v = NaN)"
| "reference_unary K_isinf d v = fl_of_bool (v = PInf \<or> v = NInf)"
| "reference_unary K_isfinite d v = fl_of_bool (v \<noteq> NaN \<and> v \<noteq> PInf \<and> v \<noteq> NInf)"
| "reference_unary K_logical_not d v = fl_of_bool (v = Fin 0)"
| "reference_unary K_bitwise_not d v = fl_of_bool (v = Fin 0)"
| "reference_unary K_neg d v = fl_neg v"

fun reference_binary :: "binary_kernel \<Rightarrow> dtype \<Rightarrow> dtype \<Rightarrow> fl \<Rightarrow> fl \<Rightarrow> fl" where
  "reference_binary K_add d1 d2 a b = fl_add a b"
| "reference_binary K_subtract d1 d2 a b = fl_sub a b"
| "reference_binary K_less_than d1 d2 a b = fl_of_bool (fl_lt a b)"
| "reference_binary K_less_equal d1 d2 a b = fl_of_bool (fl_le a b)"
| "reference_binary K_greater_than d1 d2 a b = fl_of_bool (fl_lt b a)"
| "reference_binary K_greater_equal d1 d2 a b = fl_of_bool (fl_le b a)"
| "reference_binary K_logical_and d1 d2 a b = fl_of_bool (a \<noteq> Fin 0 \<and> b \<noteq> Fin 0)"
| "reference_binary K_logical_or d1 d2 a b = fl_of_bool (a \<noteq> Fin 0 \<or> b \<noteq> Fin 0)"

text \<open>\<open>bitwise_not\<close> is given its meaning on boolean elements, which is all \<open>equal\<close> asks of it.\<close>

fun reference_of_scalar :: "pyscalar \<Rightarrow> dtype \<Rightarrow> fl" where
  "reference_of_scalar (PyBool b) d = fl_of_bool b"
| "reference_of_scalar (PyInt i) d = Fin (of_int i)"
| "reference_of_scalar (PyFloat f) d = f"
| "reference_of_scalar (PyComplex re im) d = re"

fun reference_default_dtype :: "pyscalar \<Rightarrow> dtype" where
  "reference_default_dtype (PyBool b) = paddle_bool"
| "reference_default_dtype (PyInt i) = paddle_int32"
| "reference_default_dtype (PyFloat f) = paddle_float32"
| "reference_default_dtype (PyComplex re im) = paddle_complex64"

text \<open>
  A cast to \<open>bool\<close> tests for a non-zero element; every other cast keeps the element, which
  is exact between the float dtypes (rounding and integer wrap-around are not modelled).
\<close>

definition reference_cast :: "dtype \<Rightarrow> dtype \<Rightarrow> fl \<Rightarrow> fl" where
  "reference_cast d1 d2 v = (if d2 = paddle_bool \<and> d1 \<noteq> paddle_bool then fl_of_bool (v \<noteq> Fin 0) else v)"

text \<open>
  Modelled from the spec: \<open>promote_types_of_inputs\<close> and \<open>broadcast_arrays\<close> belong to the
  surrounding library and are not under the sources; the spec's glossary says of dtype
  promotion that it determines the output type when operands of differing types are
  combined. The reference environment gives them where no table is needed: two tensors of
  one dtype are returned as they are, a Python scalar beside a tensor becomes a tensor of
  no dimension of that tensor's dtype, and broadcasting leaves tensors of one shape as
  they are and repeats the single element of a tensor of no dimension. Operands of two
  different dtypes, and other pairs of shapes, are left as they are: no theorem below
  evaluates the reference environment there.
\<close>

fun reference_promote :: "fl operand \<Rightarrow> fl operand \<Rightarrow> fl tensor \<times> fl tensor" where
  "reference_promote (Tensor a) (Tensor b) = (a, b)"
| "reference_promote (Tensor a) (Scalar s) =
     (a, \<lparr>dtype = dtype a, shape = [], vals = [reference_of_scalar s (dtype a)]\<rparr>)"
| "reference_promote (Scalar s) (Tensor b) =
     (\<lparr>dtype = dtype b, shape = [], vals = [reference_of_scalar s (dtype b)]\<rparr>, b)"
| "reference_promote (Scalar s) (Scalar t) =
     (\<lparr>dtype = reference_default_dtype s, shape = [], vals = [reference_of_scalar s (reference_default_dtype s)]\<rparr>,
      \<lparr>dtype = reference_default_dtype t, shape = [], vals = [reference_of_scalar t (reference_default_dtype t)]\<rparr>)"

definition reference_broadcast :: "fl tensor \<Rightarrow> fl tensor \<Rightarrow> fl tensor \<times> fl tensor" where
  "reference_broadcast a b =
    (if shape a = shape b then (a, b)
     else if shape b = [] then (a, b\<lparr>shape := shape a, vals := map (\<lambda>_. hd (vals b)) (vals a)\<rparr>)
     else if shape a = [] then (a\<lparr>shape := shape b, vals := map (\<lambda>_. hd (vals a)) (vals b)\<rparr>, b)
     else (a, b))"

definition reference_native :: "fl native" where
  "reference_native =
    \<lparr>promote_types_of_inputs = reference_promote,
     broadcast_arrays = reference_broadcast,
     native_promote = (\<lambda>d1 d2. d1),
     scalar_dtype = (\<lambda>s d. d),
     default_dtype = reference_default_dtype,
     of_scalar = reference_of_scalar,
     cast = reference_cast,
     truthy = (\<lambda>v. v \<noteq> Fin 0),
     unary = reference_unary,
     binary = reference_binary\<rparr>"

section \<open>Exact complex values\<close>

text \<open>
  For the complex branches of \<open>cosh\<close> and \<open>sin\<close> the elements are complex numbers, a real
  element being one with no imaginary part, and the native kernels on the float dtypes are
  the mathematical functions: rounding and the special values are not modelled.
\<close>

definition exact_kernels :: "complex native \<Rightarrow> bool" where
  "exact_kernels N =
    ((\<forall>d \<in> set [paddle_float32, paddle_float64]. \<forall>z w.
        unary N K_cosh d z = of_real (cosh (Re z)) \<and>
        unary N K_sinh d z = of_real (sinh (Re z)) \<and>
        unary N K_cos d z = of_real (cos (Re z)) \<and>
        unary N K_sin d z = of_real (sin (Re z)) \<and>
        binary N K_multiply d d z w = of_real (Re z * Re w) \<and>
        binary N K_complex d d z w = Complex (Re z) (Re w)) \<and>
     (\<forall>d \<in> set [paddle_complex64, paddle_complex128]. \<forall>z.
        unary N K_real d z = of_real (Re z) \<and> unary N K_imag d z = of_real (Im z)))"

text \<open>
  An environment that meets \<open>exact_kernels\<close>, with the kernels the theorem reads; it has no
  promotion table and no broadcasting, which no unary function uses.
\<close>

fun exact_unary :: "unary_kernel \<Rightarrow> dtype \<Rightarrow> complex \<Rightarrow> complex" where
  "exact_unary K_cosh d z = of_real (cosh (Re z))"
| "exact_unary K_sinh d z = of_real (sinh (Re z))"
| "exact_unary K_cos d z = of_real (cos (Re z))"
| "exact_unary K_sin d z = of_real (sin (Re z))"
| "exact_unary K_real d z = of_real (Re z)"
| "exact_unary K_imag d z = of_real (Im z)"

fun exact_binary :: "binary_kernel \<Rightarrow> dtype \<Rightarrow> dtype \<Rightarrow> complex \<Rightarrow> complex \<Rightarrow> complex" where
  "exact_binary K_multiply d1 d2 z w = of_real (Re z * Re w)"
| "exact_binary K_complex d1 d2 z w = Complex (Re z) (Re w)"

fun exact_of_scalar :: "pyscalar \<Rightarrow> dtype \<Rightarrow> complex" where
  "exact_of_scalar (PyBool b) d = of_bool b"
| "exact_of_scalar (PyInt i) d = of_int i"
| "exact_of_scalar (PyFloat (Fin r)) d = of_real r"
| "exact_of_scalar (PyComplex (Fin re) (Fin im)) d = Complex re im"

fun exact_promote :: "complex operand \<Rightarrow> complex operand \<Rightarrow> complex tensor \<times> complex tensor" where
  "exact_promote (Tensor a) (Tensor b) = (a, b)"

definition exact_native :: "complex native" where
  "exact_native =
    \<lparr>promote_types_of_inputs = exact_promote,
     broadcast_arrays = (\<lambda>a b. (a, b)),
     native_promote = (\<lambda>d1 d2. d1),
     scalar_dtype = (\<lambda>s d. d),
     default_dtype = reference_default_dtype,
     of_scalar = exact_of_scalar,
     cast = (\<lambda>d1 d2 z. z),
     truthy = (\<lambda>z. z \<noteq> 0),
     unary = exact_unary,
     binary = exact_binary\<rparr>"

definition complex_single :: "complex tensor" where
  "complex_single = \<lparr>dtype = paddle_complex64, shape = [1], vals = [Complex 0 0]\<rparr>"

section \<open>The adapter with a library whose calls may raise\<close>

text \<open>
  A call into the native library or into the surrounding library may raise instead of
  returning: a kernel is not registered for every dtype (the adapter upcasts around some
  of the gaps, and its decorators declare others), and a call may refuse a shape or a
  value. Which calls raise is not decided under the sources, so it is a parameter,
  \<open>raises\<close>, over the calls the adapter makes; the definitions of the sections above give the
  value of a call that returns. In this section every adapter function is the function of
  the source with each call either raising or returning that value.

  A function that the sections above define already, with calls that always return, has
  the suffix \<open>_call\<close> here (\<open>subtract_call\<close>, \<open>sqrt_call\<close>, ...); the others keep their names.
\<close>

datatype raised = Library_raised | Adapter_raised py_error

type_synonym 'v result = "raised + 'v tensor"

text \<open>
  The calls: a native kernel on one tensor, on two tensors, on a tensor and a Python scalar
  on either side; \<open>astype\<close>; \<open>_elementwise_helper\<close>'s two library calls taken together;
  \<open>paddle.where\<close>; \<open>paddle.to_tensor\<close> of a Python scalar or of \<open>None\<close>; \<open>paddle.zeros\<close>;
  \<open>paddle.ones_like\<close>; \<open>clone\<close>; \<open>ivy.any\<close>; and the indexed assignment of \<open>pow\<close>.
\<close>

datatype 'v library_call =
    Kernel unary_kernel "'v tensor"
  | Kernel2 binary_kernel "'v tensor" "'v tensor"
  | Kernel2_scalar binary_kernel "'v tensor" pyscalar
  | Scalar_kernel2 binary_kernel pyscalar "'v tensor"
  | Compare_scalar "'v tensor" pyscalar
  | Astype "'v tensor" dtype
  | Promote_and_broadcast "'v operand" "'v operand"
  | Promote "'v operand" "'v operand"
  | Where "'v tensor" "'v tensor" "'v tensor"
  | To_tensor "pyscalar option" dtype
  | Zeros "nat list" dtype
  | Ones_like "'v tensor" dtype
  | Clone "'v tensor"
  | Any "'v tensor"
  | Assign_at "'v tensor" "'v tensor"

text \<open>
  Beside \<open>raises\<close>, what the ten functions added in this section take from the surrounding
  library:
  \<^item> \<open>default_float_dtype\<close>, for \<open>divide\<close>;
  \<^item> \<open>iinfo_max\<close>, \<open>iinfo_min\<close>, \<open>finfo_max\<close> and \<open>finfo_min\<close>, the Python numbers \<open>ivy.iinfo(x).max\<close>
    and so on, by dtype, for \<open>nan_to_num\<close>;
  \<^item> \<open>to_tensor_dtype\<close>, the dtype \<open>paddle.to_tensor\<close> gives a Python scalar when none is passed;
  \<^item> \<open>of_none\<close>, the element \<open>paddle.to_tensor(None, dtype=d)\<close> holds if that call returns;
  \<^item> \<open>complex_to_inf\<close>, for the assignment \<open>ret[inf_indices] = _complex_to_inf(ret[inf_indices])\<close>
    of \<open>pow\<close>: \<open>_complex_to_inf\<close> is a function of the whole selected part of \<open>ret\<close>, so the
    values assigned are a function of \<open>ret\<close> and of the selecting tensor, one value for each
    position, read at the selected positions only.
\<close>

record 'v library =
  raises :: "'v library_call \<Rightarrow> bool"
  default_float_dtype :: dtype
  iinfo_max :: "dtype \<Rightarrow> pyscalar"
  iinfo_min :: "dtype \<Rightarrow> pyscalar"
  finfo_max :: "dtype \<Rightarrow> pyscalar"
  finfo_min :: "dtype \<Rightarrow> pyscalar"
  to_tensor_dtype :: "pyscalar \<Rightarrow> dtype"
  of_none :: "dtype \<Rightarrow> 'v"
  complex_to_inf :: "'v tensor \<Rightarrow> 'v tensor \<Rightarrow> 'v list"

text \<open>
  The native calls. An argument is the result of the expression that computes it, so a
  call whose argument has raised passes that on, as an exception does.
\<close>

definition native1 :: "'v native \<Rightarrow> 'v library \<Rightarrow> unary_kernel \<Rightarrow> 'v result \<Rightarrow> 'v result" where
  "native1 N L k e =
    (case e of
       Inl r \<Rightarrow> Inl r
     | Inr x \<Rightarrow> if raises L (Kernel k x) then Inl Library_raised else Inr (paddle1 N k x))"

definition native2 ::
  "'v native \<Rightarrow> 'v library \<Rightarrow> binary_kernel \<Rightarrow> 'v result \<Rightarrow> 'v result \<Rightarrow> 'v result" where
  "native2 N L k e1 e2 =
    (case e1 of
       Inl r \<Rightarrow> Inl r
     | Inr x \<Rightarrow>
         (case e2 of
            Inl r \<Rightarrow> Inl r
          | Inr y \<Rightarrow> if raises L (Kernel2 k x y) then Inl Library_raised
                     else Inr (paddle2 N k x y)))"

definition native2_scalar ::
  "'v native \<Rightarrow> 'v library \<Rightarrow> binary_kernel \<Rightarrow> 'v result \<Rightarrow> pyscalar \<Rightarrow> 'v result" where
  "native2_scalar N L k e s =
    (case e of
       Inl r \<Rightarrow> Inl r
     | Inr x \<Rightarrow> if raises L (Kernel2_scalar k x s) then Inl Library_raised
                else Inr (paddle2_scalar N k x s))"

definition scalar_native2 ::
  "'v native \<Rightarrow> 'v library \<Rightarrow> binary_kernel \<Rightarrow> pyscalar \<Rightarrow> 'v result \<Rightarrow> 'v result" where
  "scalar_native2 N L k s e =
    (case e of
       Inl r \<Rightarrow> Inl r
     | Inr x \<Rightarrow> if raises L (Scalar_kernel2 k s x) then Inl Library_raised
                else Inr (scalar_paddle2 N k s x))"

text \<open>\<open>t == s\<close> for a tensor and a Python number: the native \<open>equal\<close>, which gives \<open>bool\<close>.\<close>

definition compare_scalar :: "'v native \<Rightarrow> 'v library \<Rightarrow> 'v result \<Rightarrow> pyscalar \<Rightarrow> 'v result" where
  "compare_scalar N L e s =
    (case e of
       Inl r \<Rightarrow> Inl r
     | Inr x \<Rightarrow> if raises L (Compare_scalar x s) then Inl Library_raised
                else Inr ((paddle2_scalar N K_equal x s)\<lparr>dtype := paddle_bool\<rparr>))"

definition as_type :: "'v native \<Rightarrow> 'v library \<Rightarrow> 'v result \<Rightarrow> dtype \<Rightarrow> 'v result" where
  "as_type N L e d =
    (case e of
       Inl r \<Rightarrow> Inl r
     | Inr x \<Rightarrow> if raises L (Astype x d) then Inl Library_raised else Inr (astype N x d))"

definition clone_call :: "'v library \<Rightarrow> 'v result \<Rightarrow> 'v result" where
  "clone_call L e =
    (case e of
       Inl r \<Rightarrow> Inl r
     | Inr x \<Rightarrow> if raises L (Clone x) then Inl Library_raised else Inr (clone x))"

text \<open>
  \<open>paddle.to_tensor(s, dtype=d)\<close> of a Python scalar, or of \<open>None\<close> (which \<open>nan_to_num\<close> passes
  for a boolean tensor when no replacement is given).
\<close>

definition to_tensor_call ::
  "'v native \<Rightarrow> 'v library \<Rightarrow> pyscalar option \<Rightarrow> dtype \<Rightarrow> 'v result" where
  "to_tensor_call N L s d =
    (if raises L (To_tensor s d) then Inl Library_raised
     else Inr (case s of
                 Some c \<Rightarrow> to_tensor N c d
               | None \<Rightarrow> \<lparr>dtype = d, shape = [], vals = [of_none L d]\<rparr>))"

definition zeros_call :: "'v native \<Rightarrow> 'v library \<Rightarrow> nat list \<Rightarrow> dtype \<Rightarrow> 'v result" where
  "zeros_call N L sh d = (if raises L (Zeros sh d) then Inl Library_raised else Inr (zeros N sh d))"

text \<open>\<open>paddle.ones_like(x, dtype=d)\<close>: one element per element of \<open>x\<close>.\<close>

definition ones_like :: "'v native \<Rightarrow> 'v tensor \<Rightarrow> dtype \<Rightarrow> 'v tensor" where
  "ones_like N x d =
    \<lparr>dtype = d, shape = shape x, vals = map (\<lambda>_. of_scalar N (PyInt 1) d) (vals x)\<rparr>"

definition ones_like_call :: "'v native \<Rightarrow> 'v library \<Rightarrow> 'v result \<Rightarrow> dtype \<Rightarrow> 'v result" where
  "ones_like_call N L e d =
    (case e of
       Inl r \<Rightarrow> Inl r
     | Inr x \<Rightarrow> if raises L (Ones_like x d) then Inl Library_raised else Inr (ones_like N x d))"

text \<open>
  \<open>paddle.where(c, a, b)\<close> on tensors of one shape: where the condition holds the element of
  \<open>a\<close>, elsewhere the element of \<open>b\<close>.
\<close>

definition where_select :: "'v native \<Rightarrow> 'v tensor \<Rightarrow> 'v tensor \<Rightarrow> 'v tensor \<Rightarrow> 'v tensor" where
  "where_select N c x1 x2 =
    \<lparr>dtype = dtype x1, shape = shape x1,
     vals = map (\<lambda>(c, a, b). if truthy N c then a else b) (zip (vals c) (zip (vals x1) (vals x2)))\<rparr>"

definition native_where ::
  "'v native \<Rightarrow> 'v library \<Rightarrow> 'v result \<Rightarrow> 'v result \<Rightarrow> 'v result \<Rightarrow> 'v result" where
  "native_where N L ec e1 e2 =
    (case ec of
       Inl r \<Rightarrow> Inl r
     | Inr c \<Rightarrow>
         (case e1 of
            Inl r \<Rightarrow> Inl r
          | Inr a \<Rightarrow>
              (case e2 of
                 Inl r \<Rightarrow> Inl r
               | Inr b \<Rightarrow> if raises L (Where c a b) then Inl Library_raised
                          else Inr (where_select N c a b))))"

text \<open>An adapter function applied to the result of an expression.\<close>

definition call :: "('v tensor \<Rightarrow> 'v result) \<Rightarrow> 'v result \<Rightarrow> 'v result" where
  "call f e = (case e of Inl r \<Rightarrow> Inl r | Inr x \<Rightarrow> f x)"

text \<open>\<open>_elementwise_helper\<close>: either of its two library calls may raise.\<close>

definition elementwise_helper_call ::
  "'v native \<Rightarrow> 'v library \<Rightarrow> 'v operand \<Rightarrow> 'v operand
   \<Rightarrow> raised + 'v tensor \<times> 'v tensor \<times> dtype" where
  "elementwise_helper_call N L x1 x2 =
    (if raises L (Promote_and_broadcast x1 x2) then Inl Library_raised
     else Inr (elementwise_helper N x1 x2))"

text \<open>
  A statement after which the function goes on with what the statement has bound:
  \<open>and_then e f\<close> is \<open>f\<close> of what \<open>e\<close> returns, or what \<open>e\<close> raises. \<open>both\<close> is a pair of
  expressions, evaluated left to right.
\<close>

definition and_then :: "raised + 'a \<Rightarrow> ('a \<Rightarrow> raised + 'b) \<Rightarrow> raised + 'b" where
  "and_then e f = (case e of Inl r \<Rightarrow> Inl r | Inr a \<Rightarrow> f a)"

definition both :: "raised + 'a \<Rightarrow> raised + 'b \<Rightarrow> raised + 'a \<times> 'b" where
  "both e1 e2 = and_then e1 (\<lambda>a. and_then e2 (\<lambda>b. Inr (a, b)))"

text \<open>\<open>ivy.promote_types_of_inputs(x1, x2)\<close> on its own, as \<open>add\<close> and \<open>subtract\<close> call it.\<close>

definition promote_call ::
  "'v native \<Rightarrow> 'v library \<Rightarrow> 'v tensor \<Rightarrow> 'v tensor \<Rightarrow> raised + 'v tensor \<times> 'v tensor" where
  "promote_call N L x1 x2 =
    (if raises L (Promote (Tensor x1) (Tensor x2)) then Inl Library_raised
     else Inr (promote_types_of_inputs N (Tensor x1) (Tensor x2)))"

definition multiply_call :: "'v native \<Rightarrow> 'v library \<Rightarrow> 'v operand \<Rightarrow> 'v operand \<Rightarrow> 'v result" where
  "multiply_call N L x1 x2 =
    and_then (elementwise_helper_call N L x1 x2) (\<lambda>(x1, x2, ret_dtype).
    and_then (if dtype x1 \<in> set [paddle_int8, paddle_int16, paddle_uint8, paddle_float16]
              then both (as_type N L (Inr x1) paddle_float32) (as_type N L (Inr x2) paddle_float32)
              else Inr (x1, x2)) (\<lambda>(x1, x2).
    as_type N L (native2 N L K_multiply (Inr x1) (Inr x2)) ret_dtype))"

definition subtract_call ::
  "'v native \<Rightarrow> 'v library \<Rightarrow> 'v operand \<Rightarrow> 'v operand \<Rightarrow> pyscalar option \<Rightarrow> 'v result" where
  "subtract_call N L x1 x2 alpha =
    and_then (elementwise_helper_call N L x1 x2) (\<lambda>(x1, x2, ret_dtype).
    and_then (if dtype x1 \<in> set [paddle_int8, paddle_uint8, paddle_float16, paddle_bool]
              then both (as_type N L (Inr x1) paddle_float32) (as_type N L (Inr x2) paddle_float32)
              else Inr (x1, x2)) (\<lambda>(x1, x2).
    and_then (case alpha of
                None \<Rightarrow> Inr (x1, x2)
              | Some a \<Rightarrow>
                  if py_eq_1 a then Inr (x1, x2)
                  else and_then (multiply_call N L (Tensor x2) (Scalar a)) (promote_call N L x1))
             (\<lambda>(x1, x2).
    as_type N L (native2 N L K_subtract (Inr x1) (Inr x2)) ret_dtype)))"

text \<open>
  \<open>divide\<close>. \<open>ivy.is_float_dtype\<close> and \<open>ivy.is_complex_dtype\<close> are read off the dtype's name.
\<close>

definition is_float_dtype :: "dtype \<Rightarrow> bool" where
  "is_float_dtype d = (d \<in> set [paddle_float16, paddle_bfloat16, paddle_float32, paddle_float64])"

definition is_complex_dtype :: "dtype \<Rightarrow> bool" where
  "is_complex_dtype d = (d \<in> set [paddle_complex64, paddle_complex128])"

definition is_int_dtype :: "dtype \<Rightarrow> bool" where
  "is_int_dtype d =
    (d \<in> set [paddle_int8, paddle_int16, paddle_int32, paddle_int64, paddle_uint8])"

definition divide_op :: "'v native \<Rightarrow> 'v library \<Rightarrow> 'v operand \<Rightarrow> 'v operand \<Rightarrow> 'v result" where
  "divide_op N L x1 x2 =
    and_then (elementwise_helper_call N L x1 x2) (\<lambda>(x1, x2, ret_dtype).
    and_then (if dtype x1 \<in> set [paddle_float16, paddle_bfloat16]
              then both (as_type N L (Inr x1) paddle_float32) (as_type N L (Inr x2) paddle_float32)
              else Inr (x1, x2)) (\<lambda>(x1, x2).
    (let ret_dtype = (if \<not> (is_float_dtype ret_dtype \<or> is_complex_dtype ret_dtype)
                      then default_float_dtype L else ret_dtype)
     in as_type N L (native2 N L K_divide (Inr x1) (Inr x2)) ret_dtype)))"

definition logical_and_call :: "'v native \<Rightarrow> 'v library \<Rightarrow> 'v operand \<Rightarrow> 'v operand \<Rightarrow> 'v result" where
  "logical_and_call N L x1 x2 =
    and_then (elementwise_helper_call N L x1 x2) (\<lambda>(x1, x2, ret_dtype).
    if ret_dtype \<in> set [paddle_uint8, paddle_float16, paddle_complex64, paddle_complex128]
    then native2 N L K_logical_and (as_type N L (Inr x1) paddle_float32)
           (as_type N L (Inr x2) paddle_float32)
    else native2 N L K_logical_and (Inr x1) (Inr x2))"

definition logical_or :: "'v native \<Rightarrow> 'v library \<Rightarrow> 'v operand \<Rightarrow> 'v operand \<Rightarrow> 'v result" where
  "logical_or N L x1 x2 =
    and_then (elementwise_helper_call N L x1 x2) (\<lambda>(x1, x2, ret_dtype).
    if ret_dtype \<in> set [paddle_uint8, paddle_float16, paddle_complex64, paddle_complex128]
    then (if is_complex x1
          then native2 N L K_logical_or
                 (native2 N L K_logical_or (native1 N L K_real (Inr x1)) (native1 N L K_real (Inr x2)))
                 (native2 N L K_logical_or (native1 N L K_imag (Inr x1)) (native1 N L K_imag (Inr x2)))
          else native2 N L K_logical_or (as_type N L (Inr x1) paddle_float32)
                 (as_type N L (Inr x2) paddle_float32))
    else native2 N L K_logical_or (Inr x1) (Inr x2))"

text \<open>
  An adapter function of two operands applied to the results of two expressions, the
  left one first.
\<close>

definition call2 ::
  "('v operand \<Rightarrow> 'v operand \<Rightarrow> 'v result) \<Rightarrow> 'v result \<Rightarrow> 'v result \<Rightarrow> 'v result" where
  "call2 f e1 e2 = and_then e1 (\<lambda>a. and_then e2 (\<lambda>b. f (Tensor a) (Tensor b)))"

definition less_equal_call :: "'v native \<Rightarrow> 'v library \<Rightarrow> 'v operand \<Rightarrow> 'v operand \<Rightarrow> 'v result" where
  "less_equal_call N L x1 x2 =
    and_then (elementwise_helper_call N L x1 x2) (\<lambda>(x1, x2, ret_dtype).
    if dtype x1 \<in> set [paddle_int8, paddle_uint8, paddle_complex64, paddle_complex128]
    then (if is_complex x1
          then (let real_part = native2 N L K_less_equal (native1 N L K_real (Inr x1))
                                  (native1 N L K_real (Inr x2));
                    imag_part = native2 N L K_less_equal (native1 N L K_imag (Inr x1))
                                  (native1 N L K_imag (Inr x2))
                in call2 (logical_and_call N L) real_part imag_part)
          else native2 N L K_less_equal (as_type N L (Inr x1) paddle_float32)
                 (as_type N L (Inr x2) paddle_float32))
    else native2 N L K_less_equal (Inr x1) (Inr x2))"

definition greater_equal_call ::
  "'v native \<Rightarrow> 'v library \<Rightarrow> 'v operand \<Rightarrow> 'v operand \<Rightarrow> 'v result" where
  "greater_equal_call N L x1 x2 =
    and_then (elementwise_helper_call N L x1 x2) (\<lambda>(x1, x2, ret_dtype).
    if dtype x1 \<in> set [paddle_int8, paddle_uint8, paddle_complex64, paddle_complex128]
    then (if is_complex x1
          then (let real_part = native2 N L K_greater_equal (native1 N L K_real (Inr x1))
                                  (native1 N L K_real (Inr x2));
                    imag_part = native2 N L K_greater_equal (native1 N L K_imag (Inr x1))
                                  (native1 N L K_imag (Inr x2))
                in native2 N L K_logical_and real_part imag_part)
          else native2 N L K_greater_equal (as_type N L (Inr x1) paddle_float32)
                 (as_type N L (Inr x2) paddle_float32))
    else native2 N L K_greater_equal (Inr x1) (Inr x2))"

definition isnan :: "'v native \<Rightarrow> 'v library \<Rightarrow> 'v tensor \<Rightarrow> 'v result" where
  "isnan N L x =
    (if dtype x \<in> set [paddle_int8, paddle_int16, paddle_uint8, paddle_complex64,
                         paddle_complex128, paddle_bool]
     then (if is_complex x
           then native2 N L K_logical_or (native1 N L K_isnan (native1 N L K_real (Inr x)))
                  (native1 N L K_isnan (native1 N L K_imag (Inr x)))
           else native1 N L K_isnan (as_type N L (Inr x) paddle_float32))
     else native1 N L K_isnan (Inr x))"

text \<open>
  Modelled from the spec: \<open>paddle_backend.where\<close> (which \<open>ivy.where\<close> dispatches to) lives in
  another module of the backend, which is not under the sources. It is taken as the
  elementwise selection its name and its use in \<open>equal\<close> say, on the two value operands as
  \<open>_elementwise_helper\<close> returns them.
\<close>

definition where_op ::
  "'v native \<Rightarrow> 'v library \<Rightarrow> 'v result \<Rightarrow> 'v result \<Rightarrow> 'v result \<Rightarrow> 'v result" where
  "where_op N L ec e1 e2 =
    and_then ec (\<lambda>c. and_then e1 (\<lambda>a. and_then e2 (\<lambda>b.
    and_then (elementwise_helper_call N L (Tensor a) (Tensor b)) (\<lambda>(a, b, ret_dtype).
    native_where N L (Inr c) (Inr a) (Inr b)))))"

text \<open>\<open>~t\<close> on a tensor is the native \<open>bitwise_not\<close>.\<close>

definition equal :: "'v native \<Rightarrow> 'v library \<Rightarrow> 'v operand \<Rightarrow> 'v operand \<Rightarrow> 'v result" where
  "equal N L x1 x2 =
    and_then (elementwise_helper_call N L x1 x2) (\<lambda>(x1, x2, ret_dtype).
    (let diff = subtract_call N L (Tensor x1) (Tensor x2) None;
         ret = call2 (logical_and_call N L)
                 (call (\<lambda>d. less_equal_call N L (Tensor d) (Scalar (PyInt 0))) diff)
                 (call (\<lambda>d. greater_equal_call N L (Tensor d) (Scalar (PyInt 0))) diff)
     in where_op N L (call (isnan N L) diff)
          (native1 N L K_bitwise_not (call2 (logical_or N L) (isnan N L x1) (isnan N L x2)))
          ret))"

definition not_equal_op :: "'v native \<Rightarrow> 'v library \<Rightarrow> 'v operand \<Rightarrow> 'v operand \<Rightarrow> 'v result" where
  "not_equal_op N L x1 x2 = native1 N L K_logical_not (equal N L x1 x2)"

definition isinf :: "'v native \<Rightarrow> 'v library \<Rightarrow> 'v tensor \<Rightarrow> bool \<Rightarrow> bool \<Rightarrow> 'v result" where
  "isinf N L x detect_positive detect_negative =
    (if detect_negative \<and> detect_positive then native1 N L K_isinf (Inr x)
     else if detect_negative then equal N L (Tensor x) (Scalar (PyFloat NInf))
     else if detect_positive then equal N L (Tensor x) (Scalar (PyFloat PInf))
     else zeros_call N L (shape x) paddle_bool)"

text \<open>The unary functions.\<close>

definition sqrt_call :: "'v native \<Rightarrow> 'v library \<Rightarrow> 'v tensor \<Rightarrow> 'v result" where
  "sqrt_call N L x =
    (if is_complex x
     then (let angle = native1 N L K_angle (Inr x)
           in native2 N L K_multiply
                (native2 N L K_complex
                   (native1 N L K_cos (native2_scalar N L K_divide angle (PyInt 2)))
                   (native1 N L K_sin (native2_scalar N L K_divide angle (PyInt 2))))
                (native1 N L K_sqrt (native1 N L K_abs (Inr x))))
     else if dtype x \<in> set [paddle_float32, paddle_float64] then native1 N L K_sqrt (Inr x)
     else (let (intermediate_dtype, output_dtype) = determine_sqrt_dtype_cast (dtype x)
           in case intermediate_dtype of
                Some idt \<Rightarrow>
                  (let result = native1 N L K_sqrt (as_type N L (Inr x) idt)
                   in case output_dtype of
                        Some odt \<Rightarrow> as_type N L result odt
                      | None \<Rightarrow> Inl Library_raised)
              | None \<Rightarrow> Inl (Adapter_raised ValueError)))"

definition cosh_call :: "'v native \<Rightarrow> 'v library \<Rightarrow> 'v tensor \<Rightarrow> 'v result" where
  "cosh_call N L x =
    (if dtype x \<in> set [paddle_int8, paddle_int16, paddle_int32, paddle_int64, paddle_uint8,
                        paddle_float16]
     then as_type N L (native1 N L K_cosh (as_type N L (Inr x) paddle_float32)) (dtype x)
     else if is_complex x
     then (let re = native1 N L K_real (Inr x); im = native1 N L K_imag (Inr x)
           in native2 N L K_complex
                (native2 N L K_multiply (native1 N L K_cosh re) (native1 N L K_cos im))
                (native2 N L K_multiply (native1 N L K_sinh re) (native1 N L K_sin im)))
     else native1 N L K_cosh (Inr x))"

definition cos_op :: "'v native \<Rightarrow> 'v library \<Rightarrow> 'v tensor \<Rightarrow> 'v result" where
  "cos_op N L x =
    (if dtype x \<in> set [paddle_int8, paddle_int16, paddle_int32, paddle_int64, paddle_uint8,
                        paddle_float16]
     then as_type N L (native1 N L K_cos (as_type N L (Inr x) paddle_float32)) (dtype x)
     else if is_complex x
     then (let re = native1 N L K_real (Inr x); im = native1 N L K_imag (Inr x)
           in native2 N L K_complex
                (native2 N L K_multiply (native1 N L K_cos re) (native1 N L K_cosh im))
                (native2 N L K_multiply (native1 N L K_neg (native1 N L K_sin re)) (native1 N L K_sinh im)))
     else native1 N L K_cos (Inr x))"

definition sin_call :: "'v native \<Rightarrow> 'v library \<Rightarrow> 'v tensor \<Rightarrow> 'v result" where
  "sin_call N L x =
    (if dtype x \<in> set [paddle_int8, paddle_int16, paddle_int32, paddle_int64, paddle_uint8,
                        paddle_float16]
     then as_type N L (native1 N L K_sin (as_type N L (Inr x) paddle_float32)) (dtype x)
     else if is_complex x
     then (let re = native1 N L K_real (Inr x); im = native1 N L K_imag (Inr x)
           in native2 N L K_complex
                (native2 N L K_multiply (native1 N L K_sin re) (native1 N L K_cosh im))
                (native2 N L K_multiply (native1 N L K_cos re) (native1 N L K_sinh im)))
     else native1 N L K_sin (Inr x))"

definition sinh_op :: "'v native \<Rightarrow> 'v library \<Rightarrow> 'v tensor \<Rightarrow> 'v result" where
  "sinh_op N L x =
    (if dtype x \<in> set [paddle_int8, paddle_int16, paddle_int32, paddle_int64, paddle_uint8,
                        paddle_float16]
     then as_type N L (native1 N L K_sinh (as_type N L (Inr x) paddle_float32)) (dtype x)
     else if is_complex x
     then (let re = native1 N L K_real (Inr x); im = native1 N L K_imag (Inr x)
           in native2 N L K_complex
                (native2 N L K_multiply (native1 N L K_sinh re) (native1 N L K_cos im))
                (native2 N L K_multiply (native1 N L K_cosh re) (native1 N L K_sin im)))
     else native1 N L K_sinh (Inr x))"

definition tanh_op :: "'v native \<Rightarrow> 'v library \<Rightarrow> 'v tensor \<Rightarrow> 'v result" where
  "tanh_op N L x =
    (if dtype x \<in> set [paddle_int8, paddle_int16, paddle_int32, paddle_int64, paddle_uint8,
                        paddle_float16]
     then as_type N L (native1 N L K_tanh (as_type N L (Inr x) paddle_float32)) (dtype x)
     else if is_complex x
     then (let tanh_a = native1 N L K_tanh (native1 N L K_real (Inr x));
               tan_b = native1 N L K_tan (native1 N L K_imag (Inr x))
           in native2 N L K_divide
                (native2 N L K_add tanh_a
                   (scalar_native2 N L K_multiply (PyComplex (Fin 0) (Fin 1)) tan_b))
                (scalar_native2 N L K_add (PyInt 1)
                   (scalar_native2 N L K_multiply (PyComplex (Fin 0) (Fin 1))
                      (native2 N L K_multiply tanh_a tan_b))))
     else native1 N L K_tanh (Inr x))"

definition tan_op :: "'v native \<Rightarrow> 'v library \<Rightarrow> 'v tensor \<Rightarrow> 'v result" where
  "tan_op N L x =
    (if dtype x \<in> set [paddle_int8, paddle_int16, paddle_int32, paddle_int64, paddle_uint8,
                        paddle_float16]
     then as_type N L (native1 N L K_tan (as_type N L (Inr x) paddle_float32)) (dtype x)
     else if is_complex x
     then (let tanh_ix = call (tanh_op N L) (native2 N L K_complex (native1 N L K_neg (native1 N L K_imag (Inr x)))
                                   (native1 N L K_real (Inr x)))
           in native2 N L K_complex (native1 N L K_imag tanh_ix)
                (native1 N L K_neg (native1 N L K_real tanh_ix)))
     else native1 N L K_tan (Inr x))"

definition log_op :: "'v native \<Rightarrow> 'v library \<Rightarrow> 'v tensor \<Rightarrow> 'v result" where
  "log_op N L x =
    (if dtype x \<in> set [paddle_int8, paddle_int16, paddle_int32, paddle_int64, paddle_uint8,
                        paddle_float16, paddle_complex64, paddle_complex128, paddle_bool]
     then (if is_complex x
           then native2 N L K_complex (native1 N L K_log (native1 N L K_abs (Inr x))) (native1 N L K_angle (Inr x))
           else as_type N L (native1 N L K_log (as_type N L (Inr x) paddle_float32)) (dtype x))
     else native1 N L K_log (Inr x))"

definition log1p :: "'v native \<Rightarrow> 'v library \<Rightarrow> 'v tensor \<Rightarrow> 'v result" where
  "log1p N L x =
    (if dtype x \<in> set [paddle_int8, paddle_int16, paddle_int32, paddle_int64, paddle_uint8,
                        paddle_float16, paddle_complex64, paddle_complex128, paddle_bool]
     then (if is_complex x
           then call (log_op N L) (native2_scalar N L K_add (Inr x) (PyInt 1))
           else as_type N L (native1 N L K_log1p (as_type N L (Inr x) paddle_float32)) (dtype x))
     else native1 N L K_log1p (Inr x))"

definition atanh :: "'v native \<Rightarrow> 'v library \<Rightarrow> 'v tensor \<Rightarrow> 'v result" where
  "atanh N L x =
    (if dtype x \<in> set [paddle_int8, paddle_int16, paddle_int32, paddle_int64, paddle_uint8,
                        paddle_float16]
     then as_type N L (native1 N L K_atanh (as_type N L (Inr x) paddle_float32)) (dtype x)
     else if is_complex x
     then scalar_native2 N L K_multiply (PyFloat (Fin (1 / 2)))
            (native2 N L K_subtract (call (log_op N L) (scalar_native2 N L K_add (PyInt 1) (Inr x)))
               (call (log_op N L) (scalar_native2 N L K_subtract (PyInt 1) (Inr x))))
     else native1 N L K_atanh (Inr x))"

definition atan :: "'v native \<Rightarrow> 'v library \<Rightarrow> 'v tensor \<Rightarrow> 'v result" where
  "atan N L x =
    (if dtype x \<in> set [paddle_int8, paddle_int16, paddle_int32, paddle_int64, paddle_uint8,
                        paddle_float16]
     then as_type N L (native1 N L K_atan (as_type N L (Inr x) paddle_float32)) (dtype x)
     else if dtype x \<in> set [paddle_complex64, paddle_complex128]
     then (let atanh_iz = call (atanh N L) (native2 N L K_complex (native1 N L K_neg (native1 N L K_imag (Inr x)))
                                    (native1 N L K_real (Inr x)))
           in native2 N L K_complex (native1 N L K_imag atanh_iz)
                (native1 N L K_neg (native1 N L K_real atanh_iz)))
     else native1 N L K_atan (Inr x))"

definition trunc :: "'v native \<Rightarrow> 'v library \<Rightarrow> 'v tensor \<Rightarrow> 'v result" where
  "trunc N L x =
    (if dtype x \<in> set [paddle_int8, paddle_int16, paddle_uint8, paddle_float16,
                         paddle_complex64, paddle_complex128, paddle_bool]
     then (if is_complex x
           then native2 N L K_complex (native1 N L K_trunc (native1 N L K_real (Inr x)))
                  (native1 N L K_trunc (native1 N L K_imag (Inr x)))
           else as_type N L (native1 N L K_trunc (as_type N L (Inr x) paddle_float32)) (dtype x))
     else native1 N L K_trunc (Inr x))"

definition ceil :: "'v native \<Rightarrow> 'v library \<Rightarrow> 'v tensor \<Rightarrow> 'v result" where
  "ceil N L x =
    (let x_dtype = dtype x
     in if x_dtype \<in> set [paddle_int8, paddle_int16, paddle_int32, paddle_uint8,
                            paddle_float16, paddle_complex64, paddle_complex128, paddle_bool]
        then (if is_complex x
              then native2 N L K_complex (native1 N L K_ceil (native1 N L K_real (Inr x)))
                     (native1 N L K_ceil (native1 N L K_imag (Inr x)))
              else as_type N L (native1 N L K_ceil (as_type N L (Inr x) paddle_float32)) x_dtype)
        else if x_dtype = paddle_int64
        then as_type N L (native1 N L K_ceil (as_type N L (Inr x) paddle_float64)) x_dtype
        else native1 N L K_ceil (Inr x))"

definition floor_op :: "'v native \<Rightarrow> 'v library \<Rightarrow> 'v tensor \<Rightarrow> 'v result" where
  "floor_op N L x =
    (let x_dtype = dtype x
     in if x_dtype \<in> set [paddle_int8, paddle_int16, paddle_int32, paddle_uint8,
                            paddle_float16, paddle_complex64, paddle_complex128, paddle_bool]
        then (if is_complex x
              then native2 N L K_complex (native1 N L K_floor (native1 N L K_real (Inr x)))
                     (native1 N L K_floor (native1 N L K_imag (Inr x)))
              else as_type N L (native1 N L K_floor (as_type N L (Inr x) paddle_float32)) x_dtype)
        else if x_dtype = paddle_int64
        then as_type N L (native1 N L K_floor (as_type N L (Inr x) paddle_float64)) x_dtype
        else native1 N L K_floor (Inr x))"

text \<open>\<open>sign\<close> does not read its keyword argument \<open>np_variant\<close>.\<close>

definition sign :: "'v native \<Rightarrow> 'v library \<Rightarrow> 'v tensor \<Rightarrow> 'v result" where
  "sign N L x =
    (if dtype x \<in> set [paddle_int8, paddle_int16, paddle_int32, paddle_int64, paddle_uint8,
                         paddle_float16, paddle_bfloat16, paddle_bool]
     then as_type N L (native1 N L K_sgn (as_type N L (Inr x) paddle_float32)) (dtype x)
     else native1 N L K_sgn (Inr x))"

definition logical_not :: "'v native \<Rightarrow> 'v library \<Rightarrow> 'v tensor \<Rightarrow> 'v result" where
  "logical_not N L x =
    (if dtype x \<in> set [paddle_uint8, paddle_float16, paddle_complex64, paddle_complex128]
     then (if is_complex x
           then native2 N L K_logical_and (native1 N L K_logical_not (native1 N L K_real (Inr x)))
                  (native1 N L K_logical_not (native1 N L K_imag (Inr x)))
           else native1 N L K_logical_not (as_type N L (Inr x) paddle_float32))
     else native1 N L K_logical_not (Inr x))"

text \<open>
  \<open>negative\<close>, \<open>positive\<close> and \<open>abs\<close> accept a Python scalar too and make a tensor of no
  dimension of it first, with \<open>paddle.to_tensor(x, dtype=ivy.default_dtype(item=x)).squeeze()\<close>.
\<close>

definition as_tensor :: "'v native \<Rightarrow> 'v library \<Rightarrow> 'v operand \<Rightarrow> 'v result" where
  "as_tensor N L x =
    (case x of Tensor t \<Rightarrow> Inr t | Scalar s \<Rightarrow> to_tensor_call N L (Some s) (default_dtype N s))"

definition negative :: "'v native \<Rightarrow> 'v library \<Rightarrow> 'v operand \<Rightarrow> 'v result" where
  "negative N L x =
    and_then (as_tensor N L x) (\<lambda>x.
    if dtype x = paddle_bool then native1 N L K_logical_not (Inr x) else native1 N L K_neg (Inr x))"

definition positive :: "'v native \<Rightarrow> 'v library \<Rightarrow> 'v operand \<Rightarrow> 'v result" where
  "positive N L x = clone_call L (as_tensor N L x)"

definition abs_op :: "'v native \<Rightarrow> 'v library \<Rightarrow> 'v operand \<Rightarrow> 'v result" where
  "abs_op N L x =
    and_then (as_tensor N L x) (\<lambda>x.
    if dtype x \<in> set [paddle_int8, paddle_int16, paddle_uint8, paddle_float16,
                        paddle_bfloat16, paddle_bool]
    then as_type N L (native1 N L K_abs (as_type N L (Inr x) paddle_float32)) (dtype x)
    else native1 N L K_abs (Inr x))"

definition bitwise_invert :: "'v native \<Rightarrow> 'v library \<Rightarrow> 'v tensor \<Rightarrow> 'v result" where
  "bitwise_invert N L x = native1 N L K_bitwise_not (Inr x)"

definition isfinite :: "'v native \<Rightarrow> 'v library \<Rightarrow> 'v tensor \<Rightarrow> 'v result" where
  "isfinite N L x = native1 N L K_isfinite (Inr x)"

definition real_op :: "'v native \<Rightarrow> 'v library \<Rightarrow> 'v tensor \<Rightarrow> 'v result" where
  "real_op N L x = native1 N L K_real (Inr x)"

definition imag :: "'v native \<Rightarrow> 'v library \<Rightarrow> 'v tensor \<Rightarrow> 'v result" where
  "imag N L x = native1 N L K_imag (Inr x)"

text \<open>\<open>deg\<close> is \<open>Optional[bool]\<close>; \<open>None\<close> and \<open>False\<close> both skip the conversion.\<close>

definition angle :: "'v native \<Rightarrow> 'v library \<Rightarrow> 'v tensor \<Rightarrow> bool option \<Rightarrow> 'v result" where
  "angle N L x deg =
    (let result = native1 N L K_angle (Inr x)
     in if deg = Some True then native1 N L K_rad2deg result else result)"

definition erf :: "'v native \<Rightarrow> 'v library \<Rightarrow> 'v tensor \<Rightarrow> 'v result" where
  "erf N L x =
    (if dtype x \<in> set [paddle_int8, paddle_int16, paddle_int32, paddle_int64, paddle_uint8]
     then as_type N L (native1 N L K_erf (as_type N L (Inr x) paddle_float32)) (dtype x)
     else native1 N L K_erf (Inr x))"

definition deg2rad :: "'v native \<Rightarrow> 'v library \<Rightarrow> 'v tensor \<Rightarrow> 'v result" where
  "deg2rad N L x =
    (if dtype x \<in> set [paddle_int32, paddle_int64, paddle_bool]
     then as_type N L (native1 N L K_deg2rad (as_type N L (Inr x) paddle_float32)) (dtype x)
     else native1 N L K_deg2rad (Inr x))"

definition rad2deg :: "'v native \<Rightarrow> 'v library \<Rightarrow> 'v tensor \<Rightarrow> 'v result" where
  "rad2deg N L x =
    (if dtype x \<in> set [paddle_int32, paddle_int64, paddle_bool]
     then as_type N L (native1 N L K_rad2deg (as_type N L (Inr x) paddle_float32)) (dtype x)
     else native1 N L K_rad2deg (Inr x))"

definition isreal :: "'v native \<Rightarrow> 'v library \<Rightarrow> 'v tensor \<Rightarrow> 'v result" where
  "isreal N L x =
    (if is_complex x
     then native1 N L K_logical_not (as_type N L (native1 N L K_imag (Inr x)) paddle_bool)
     else ones_like_call N L (Inr x) paddle_bool)"

text \<open>
  The inverse functions call \<open>sqrt\<close> on complex tensors they build, so they pass on what it
  raises.
\<close>

definition asinh :: "'v native \<Rightarrow> 'v library \<Rightarrow> 'v tensor \<Rightarrow> 'v result" where
  "asinh N L x =
    (if dtype x \<in> set [paddle_int8, paddle_int16, paddle_int32, paddle_int64, paddle_uint8,
                         paddle_float16]
     then as_type N L (native1 N L K_asinh (as_type N L (Inr x) paddle_float32)) (dtype x)
     else if is_complex x
     then (let s1 = call (sqrt_call N L)
                      (native2 N L K_complex (scalar_native2 N L K_add (PyInt 1) (native1 N L K_imag (Inr x)))
                         (native1 N L K_neg (native1 N L K_real (Inr x))));
               s2 = call (sqrt_call N L)
                      (native2 N L K_complex
                         (scalar_native2 N L K_subtract (PyInt 1) (native1 N L K_imag (Inr x)))
                         (native1 N L K_real (Inr x)))
           in native2 N L K_complex
                (native1 N L K_asinh
                   (native2 N L K_subtract
                      (native2 N L K_multiply (native1 N L K_real s1) (native1 N L K_imag s2))
                      (native2 N L K_multiply (native1 N L K_real s2) (native1 N L K_imag s1))))
                (native2 N L K_atan2 (native1 N L K_imag (Inr x))
                   (native2 N L K_subtract
                      (native2 N L K_multiply (native1 N L K_real s1) (native1 N L K_real s2))
                      (native2 N L K_multiply (native1 N L K_imag s1) (native1 N L K_imag s2)))))
     else native1 N L K_asinh (Inr x))"

definition asin :: "'v native \<Rightarrow> 'v library \<Rightarrow> 'v tensor \<Rightarrow> 'v result" where
  "asin N L x =
    (if dtype x \<in> set [paddle_int8, paddle_int16, paddle_int32, paddle_int64, paddle_uint8,
                         paddle_float16]
     then as_type N L (native1 N L K_asin (as_type N L (Inr x) paddle_float32)) (dtype x)
     else if is_complex x
     then (let asinh_iz = call (asinh N L)
                            (native2 N L K_complex (native1 N L K_neg (native1 N L K_imag (Inr x)))
                               (native1 N L K_real (Inr x)))
           in native2 N L K_complex (native1 N L K_imag asinh_iz)
                (native1 N L K_neg (native1 N L K_real asinh_iz)))
     else native1 N L K_asin (Inr x))"

definition acos :: "'v native \<Rightarrow> 'v library \<Rightarrow> 'v tensor \<Rightarrow> 'v result" where
  "acos N L x =
    (if dtype x \<in> set [paddle_int8, paddle_int16, paddle_int32, paddle_int64, paddle_uint8,
                         paddle_float16]
     then as_type N L (native1 N L K_acos (as_type N L (Inr x) paddle_float32)) (dtype x)
     else if is_complex x
     then (let s1 = call (sqrt_call N L) (scalar_native2 N L K_subtract (PyInt 1) (Inr x));
               s2 = call (sqrt_call N L) (scalar_native2 N L K_add (PyInt 1) (Inr x))
           in native2 N L K_complex
                (scalar_native2 N L K_multiply (PyFloat (Fin 2))
                   (native2 N L K_atan2 (native1 N L K_real s1) (native1 N L K_real s2)))
                (native1 N L K_asinh
                   (native2 N L K_subtract
                      (native2 N L K_multiply (native1 N L K_real s2) (native1 N L K_imag s1))
                      (native2 N L K_multiply (native1 N L K_imag s2) (native1 N L K_real s1)))))
     else native1 N L K_acos (Inr x))"

definition acosh :: "'v native \<Rightarrow> 'v library \<Rightarrow> 'v tensor \<Rightarrow> 'v result" where
  "acosh N L x =
    (if dtype x \<in> set [paddle_int8, paddle_int16, paddle_int32, paddle_int64, paddle_uint8,
                         paddle_float16]
     then as_type N L (native1 N L K_acosh (as_type N L (Inr x) paddle_float32)) (dtype x)
     else if is_complex x
     then (let s1 = call (sqrt_call N L)
                      (native2 N L K_complex
                         (native2_scalar N L K_subtract (native1 N L K_real (Inr x)) (PyInt 1))
                         (native1 N L K_imag (Inr x)));
               s2 = call (sqrt_call N L)
                      (native2 N L K_complex
                         (native2_scalar N L K_add (native1 N L K_real (Inr x)) (PyInt 1))
                         (native1 N L K_imag (Inr x)))
           in native2 N L K_complex
                (native1 N L K_asinh
                   (native2 N L K_add
                      (native2 N L K_multiply (native1 N L K_real s1) (native1 N L K_real s2))
                      (native2 N L K_multiply (native1 N L K_imag s1) (native1 N L K_imag s2))))
                (scalar_native2 N L K_multiply (PyFloat (Fin 2))
                   (native2 N L K_atan2 (native1 N L K_imag s1) (native1 N L K_real s2))))
     else native1 N L K_acosh (Inr x))"

section \<open>The adapter with a library whose calls may raise: the remaining unary functions\<close>

text \<open>
  \<open>ivy.any(t)\<close>: whether some element of \<open>t\<close> is true.
\<close>

definition any_call :: "'v native \<Rightarrow> 'v library \<Rightarrow> 'v result \<Rightarrow> raised + bool" where
  "any_call N L e =
    and_then e (\<lambda>t. if raises L (Any t) then Inl Library_raised
                      else Inr (list_ex (truthy N) (vals t)))"

text \<open>
  \<open>ret[inf_indices] = _complex_to_inf(ret[inf_indices])\<close>, with \<open>inf_indices\<close> the positions
  where \<open>mask\<close> is true: the other positions of \<open>ret\<close> keep their elements.
\<close>

definition assign_at :: "'v native \<Rightarrow> 'v library \<Rightarrow> 'v result \<Rightarrow> 'v result \<Rightarrow> 'v result" where
  "assign_at N L e_ret e_mask =
    and_then e_ret (\<lambda>ret. and_then e_mask (\<lambda>mask.
    if raises L (Assign_at ret mask) then Inl Library_raised
    else Inr (ret\<lparr>vals := map (\<lambda>i. if truthy N (vals mask ! i) then complex_to_inf L ret mask ! i
                                   else vals ret ! i) [0..<length (vals ret)]\<rparr>)))"

text \<open>
  \<open>pow\<close>. Its first test reads the whole second operand: \<open>ivy.isinf\<close> dispatches to \<open>isinf\<close>
  above with both flags set, and \<open>and\<close> evaluates it only for a complex first operand.
  \<open>pow_finite\<close> is the rest of the function, the three branches after that test.
\<close>

definition pow_finite ::
  "'v native \<Rightarrow> 'v library \<Rightarrow> 'v tensor \<Rightarrow> 'v tensor \<Rightarrow> dtype \<Rightarrow> 'v result" where
  "pow_finite N L x1 x2 ret_dtype =
    (if dtype x1 \<in> set [paddle_int8, paddle_int16, paddle_uint8, paddle_float16, paddle_bool]
     then as_type N L (native2 N L K_pow (as_type N L (Inr x1) paddle_float32)
                         (as_type N L (Inr x2) paddle_float32)) ret_dtype
     else if is_complex x1
     then (let r = native1 N L K_abs (Inr x1);
               theta = native1 N L K_angle (Inr x1);
               res_mag = native2 N L K_divide (native2 N L K_pow r (native1 N L K_real (Inr x2)))
                           (native1 N L K_exp (native2 N L K_multiply (native1 N L K_imag (Inr x2)) theta));
               res_ang = native2 N L K_add
                           (native2 N L K_multiply (native1 N L K_log r) (native1 N L K_imag (Inr x2)))
                           (native2 N L K_multiply theta (native1 N L K_real (Inr x2)));
               result = native2 N L K_multiply res_mag
                          (native2 N L K_complex (native1 N L K_cos res_ang) (native1 N L K_sin res_ang))
           in as_type N L result ret_dtype)
     else native2 N L K_pow (Inr x1) (Inr x2))"

definition pow :: "'v native \<Rightarrow> 'v library \<Rightarrow> 'v operand \<Rightarrow> 'v operand \<Rightarrow> 'v result" where
  "pow N L x1 x2 =
    and_then (elementwise_helper_call N L x1 x2) (\<lambda>(x1, x2, ret_dtype).
    and_then (if is_complex_dtype (dtype x1) then any_call N L (isinf N L x2 True True)
              else Inr False) (\<lambda>any_inf.
    if any_inf
    then (let inf_indices = native1 N L K_isinf (Inr x2);
              ret = native2 N L K_pow (Inr x1) (Inr x2)
          in assign_at N L ret inf_indices)
    else pow_finite N L x1 x2 ret_dtype))"

text \<open>\<open>math.e\<close> is the Python float nearest to the base of the natural logarithm.\<close>

definition exp_op :: "'v native \<Rightarrow> 'v library \<Rightarrow> 'v tensor \<Rightarrow> 'v result" where
  "exp_op N L x =
    (if dtype x \<in> set [paddle_int32, paddle_int64, paddle_float32, paddle_float64]
     then native1 N L K_exp (Inr x)
     else if is_complex x
     then native2 N L K_multiply (native1 N L K_exp (native1 N L K_real (Inr x)))
            (native2 N L K_complex (native1 N L K_cos (native1 N L K_imag (Inr x)))
               (native1 N L K_sin (native1 N L K_imag (Inr x))))
     else as_type N L (pow N L (Scalar (PyFloat (Fin (exp 1)))) (Tensor x)) (dtype x))"

text \<open>
  Modelled from the spec: \<open>exp2\<close> calls \<open>ivy.pow(2, x)\<close>, the function of the surrounding
  library that dispatches to the backend in use, here to \<open>pow\<close> above.
\<close>

definition exp2 :: "'v native \<Rightarrow> 'v library \<Rightarrow> 'v tensor \<Rightarrow> 'v result" where
  "exp2 N L x = pow N L (Scalar (PyInt 2)) (Tensor x)"

definition expm1 :: "'v native \<Rightarrow> 'v library \<Rightarrow> 'v tensor \<Rightarrow> 'v result" where
  "expm1 N L x =
    (if dtype x \<in> set [paddle_float16, paddle_float32, paddle_float64]
     then native1 N L K_expm1 (Inr x)
     else as_type N L
            (call (\<lambda>e. subtract_call N L (Tensor e) (Scalar (PyFloat (Fin 1))) None) (exp_op N L x))
            (dtype x))"

definition square :: "'v native \<Rightarrow> 'v library \<Rightarrow> 'v tensor \<Rightarrow> 'v result" where
  "square N L x =
    (if dtype x \<in> set [paddle_int32, paddle_int64, paddle_float32, paddle_float64]
     then native1 N L K_square (Inr x)
     else if is_complex x
     then native2 N L K_complex
            (native2 N L K_subtract (native1 N L K_square (native1 N L K_real (Inr x)))
               (native1 N L K_square (native1 N L K_imag (Inr x))))
            (native2 N L K_multiply
               (scalar_native2 N L K_multiply (PyFloat (Fin 2)) (native1 N L K_real (Inr x)))
               (native1 N L K_imag (Inr x)))
     else as_type N L (pow N L (Tensor x) (Scalar (PyInt 2))) (dtype x))"

definition reciprocal :: "'v native \<Rightarrow> 'v library \<Rightarrow> 'v tensor \<Rightarrow> 'v result" where
  "reciprocal N L x =
    (if dtype x \<in> set [paddle_float32, paddle_float64] then native1 N L K_reciprocal (Inr x)
     else divide_op N L (Scalar (PyInt 1)) (Tensor x))"

text \<open>
  \<open>log10\<close> and \<open>log2\<close> of a complex tensor divide by the logarithm of the base, a tensor of
  no dimension made with \<open>paddle.to_tensor(10.0).squeeze()\<close>.
\<close>

definition log10 :: "'v native \<Rightarrow> 'v library \<Rightarrow> 'v tensor \<Rightarrow> 'v result" where
  "log10 N L x =
    (if dtype x \<in> set [paddle_int8, paddle_int16, paddle_int32, paddle_int64, paddle_uint8,
                         paddle_float16, paddle_complex64, paddle_complex128, paddle_bool]
     then (if is_complex x
           then (let base = to_tensor_call N L (Some (PyFloat (Fin 10)))
                              (to_tensor_dtype L (PyFloat (Fin 10)))
                 in as_type N L (call2 (divide_op N L) (log_op N L x) (call (log_op N L) base)) (dtype x))
           else as_type N L (native1 N L K_log10 (as_type N L (Inr x) paddle_float32)) (dtype x))
     else native1 N L K_log10 (Inr x))"

definition log2 :: "'v native \<Rightarrow> 'v library \<Rightarrow> 'v tensor \<Rightarrow> 'v result" where
  "log2 N L x =
    (if dtype x \<in> set [paddle_int8, paddle_int16, paddle_int32, paddle_int64, paddle_uint8,
                         paddle_float16, paddle_complex64, paddle_complex128, paddle_bool]
     then (if is_complex x
           then (let base = to_tensor_call N L (Some (PyFloat (Fin 2)))
                              (to_tensor_dtype L (PyFloat (Fin 2)))
                 in as_type N L (call2 (divide_op N L) (log_op N L x) (call (log_op N L) base)) (dtype x))
           else as_type N L (native1 N L K_log2 (as_type N L (Inr x) paddle_float32)) (dtype x))
     else native1 N L K_log2 (Inr x))"

text \<open>
  \<open>round\<close> does not read its keyword argument \<open>decimals\<close>. \<open>_np_round\<close> is its inner
  function; \<open>x.abs()\<close> is the native \<open>abs\<close>, and \<open>t == 0\<close> the native comparison with a number.
\<close>

definition np_round :: "'v native \<Rightarrow> 'v library \<Rightarrow> 'v tensor \<Rightarrow> 'v result" where
  "np_round N L x =
    (let one = to_tensor_call N L (Some (PyInt 1)) paddle_int64;
         is_even = compare_scalar N L
                     (native2 N L K_bitwise_and (as_type N L (trunc N L x) paddle_int64) one)
                     (PyInt 0);
         round_x = native2 N L K_multiply (native1 N L K_sign (Inr x))
                     (native_where N L is_even (native1 N L K_floor (native1 N L K_abs (Inr x)))
                        (native1 N L K_ceil (native1 N L K_abs (Inr x))))
     in native_where N L
          (native2 N L K_logical_and
             (compare_scalar N L
                (native2 N L K_bitwise_and (as_type N L round_x paddle_int64) one)
                (PyFloat (Fin 1)))
             is_even)
          (native2_scalar N L K_subtract round_x (PyFloat (Fin 1)))
          round_x)"

definition round_op :: "'v native \<Rightarrow> 'v library \<Rightarrow> 'v tensor \<Rightarrow> int \<Rightarrow> 'v result" where
  "round_op N L x decimals =
    (if dtype x \<notin> set [paddle_float32, paddle_float64]
     then (if is_complex x
           then native2 N L K_complex (call (np_round N L) (native1 N L K_real (Inr x)))
                  (call (np_round N L) (native1 N L K_imag (Inr x)))
           else as_type N L (call (np_round N L) (as_type N L (Inr x) paddle_float32)) (dtype x))
     else as_type N L (np_round N L x) (dtype x))"

text \<open>
  \<open>nan_to_num\<close>. \<open>ivy.where\<close>, \<open>ivy.isnan\<close>, \<open>ivy.isinf\<close> and \<open>ivy.logical_and\<close> dispatch to the
  backend's functions; \<open>ivy.is_int_dtype\<close> holds of the five integer dtypes and not of
  \<open>bool\<close>, for which the two replacements stay \<open>None\<close> when none is given. \<open>if copy:\<close> holds
  of \<open>True\<close> only.
\<close>

definition nan_to_num ::
  "'v native \<Rightarrow> 'v library \<Rightarrow> 'v tensor \<Rightarrow> bool option \<Rightarrow> pyscalar option \<Rightarrow> pyscalar option
   \<Rightarrow> pyscalar option \<Rightarrow> 'v result" where
  "nan_to_num N L x copy nan posinf neginf =
    (let (posinf, neginf) =
           (if is_int_dtype (dtype x)
            then (case posinf of None \<Rightarrow> Some (iinfo_max L (dtype x)) | Some p \<Rightarrow> Some p,
                  case neginf of None \<Rightarrow> Some (iinfo_min L (dtype x)) | Some p \<Rightarrow> Some p)
            else if is_float_dtype (dtype x) \<or> is_complex_dtype (dtype x)
            then (case posinf of None \<Rightarrow> Some (finfo_max L (dtype x)) | Some p \<Rightarrow> Some p,
                  case neginf of None \<Rightarrow> Some (finfo_min L (dtype x)) | Some p \<Rightarrow> Some p)
            else (posinf, neginf));
         ret = where_op N L (isnan N L x) (to_tensor_call N L nan (dtype x)) (Inr x);
         ret = where_op N L
                 (call2 (logical_and_call N L) (call (\<lambda>r. isinf N L r True True) ret)
                    (native2_scalar N L K_greater_than ret (PyInt 0)))
                 (to_tensor_call N L posinf (dtype x)) ret;
         ret = where_op N L
                 (call2 (logical_and_call N L) (call (\<lambda>r. isinf N L r True True) ret)
                    (native2_scalar N L K_less_than ret (PyInt 0)))
                 (to_tensor_call N L neginf (dtype x)) ret
     in if copy = Some True then clone_call L ret else ret)"

section \<open>The unary functions as a family\<close>

text \<open>
  The forty-three functions of the adapter that take one tensor and return a tensor with
  one element for each of its elements, with the keyword arguments the source reads.
  (\<open>negative\<close>, \<open>positive\<close> and \<open>abs\<close> are applied to a tensor.)
\<close>

datatype unary_op =
    Op_abs | Op_acos | Op_acosh | Op_angle "bool option" | Op_asin | Op_asinh
  | Op_atan | Op_atanh | Op_bitwise_invert | Op_ceil | Op_cos | Op_cosh
  | Op_deg2rad | Op_erf | Op_exp | Op_exp2 | Op_expm1 | Op_floor | Op_imag
  | Op_isfinite | Op_isinf bool bool | Op_isnan | Op_isreal | Op_log | Op_log10
  | Op_log1p | Op_log2 | Op_logical_not
  | Op_nan_to_num "bool option" "pyscalar option" "pyscalar option" "pyscalar option"
  | Op_negative | Op_positive | Op_rad2deg | Op_real | Op_reciprocal | Op_round int
  | Op_sign | Op_sin | Op_sinh | Op_sqrt | Op_square | Op_tan | Op_tanh | Op_trunc

definition unary_adapter :: "'v native \<Rightarrow> 'v library \<Rightarrow> unary_op \<Rightarrow> 'v tensor \<Rightarrow> 'v result" where
  "unary_adapter N L op =
    (case op of
       Op_abs \<Rightarrow> (\<lambda>x. abs_op N L (Tensor x))
     | Op_acos \<Rightarrow> acos N L
     | Op_acosh \<Rightarrow> acosh N L
     | Op_angle deg \<Rightarrow> (\<lambda>x. angle N L x deg)
     | Op_asin \<Rightarrow> asin N L
     | Op_asinh \<Rightarrow> asinh N L
     | Op_atan \<Rightarrow> atan N L
     | Op_atanh \<Rightarrow> atanh N L
     | Op_bitwise_invert \<Rightarrow> bitwise_invert N L
     | Op_ceil \<Rightarrow> ceil N L
     | Op_cos \<Rightarrow> cos_op N L
     | Op_cosh \<Rightarrow> cosh_call N L
     | Op_deg2rad \<Rightarrow> deg2rad N L
     | Op_erf \<Rightarrow> erf N L
     | Op_exp \<Rightarrow> exp_op N L
     | Op_exp2 \<Rightarrow> exp2 N L
     | Op_expm1 \<Rightarrow> expm1 N L
     | Op_floor \<Rightarrow> floor_op N L
     | Op_imag \<Rightarrow> imag N L
     | Op_isfinite \<Rightarrow> isfinite N L
     | Op_isinf detect_positive detect_negative \<Rightarrow> (\<lambda>x. isinf N L x detect_positive detect_negative)
     | Op_isnan \<Rightarrow> isnan N L
     | Op_isreal \<Rightarrow> isreal N L
     | Op_log \<Rightarrow> log_op N L
     | Op_log10 \<Rightarrow> log10 N L
     | Op_log1p \<Rightarrow> log1p N L
     | Op_log2 \<Rightarrow> log2 N L
     | Op_logical_not \<Rightarrow> logical_not N L
     | Op_nan_to_num copy nan posinf neginf \<Rightarrow> (\<lambda>x. nan_to_num N L x copy nan posinf neginf)
     | Op_negative \<Rightarrow> (\<lambda>x. negative N L (Tensor x))
     | Op_positive \<Rightarrow> (\<lambda>x. positive N L (Tensor x))
     | Op_rad2deg \<Rightarrow> rad2deg N L
     | Op_real \<Rightarrow> real_op N L
     | Op_reciprocal \<Rightarrow> reciprocal N L
     | Op_round decimals \<Rightarrow> (\<lambda>x. round_op N L x decimals)
     | Op_sign \<Rightarrow> sign N L
     | Op_sin \<Rightarrow> sin_call N L
     | Op_sinh \<Rightarrow> sinh_op N L
     | Op_sqrt \<Rightarrow> sqrt_call N L
     | Op_square \<Rightarrow> square N L
     | Op_tan \<Rightarrow> tan_op N L
     | Op_tanh \<Rightarrow> tanh_op N L
     | Op_trunc \<Rightarrow> trunc N L)"

section \<open>Concrete tensors\<close>

text \<open>Concrete tensors for the closed instances below.\<close>

definition special_values :: "fl tensor" where
  "special_values = \<lparr>dtype = paddle_float32, shape = [3], vals = [NaN, PInf, Fin 1]\<rparr>"

definition infinities :: "fl tensor" where
  "infinities = \<lparr>dtype = paddle_float32, shape = [4], vals = [PInf, NInf, NaN, Fin 2]\<rparr>"

definition int8_pair :: "fl tensor" where
  "int8_pair = \<lparr>dtype = paddle_int8, shape = [2], vals = [Fin 1, Fin 2]\<rparr>"

definition bool_single :: "fl tensor" where
  "bool_single = \<lparr>dtype = paddle_bool, shape = [1], vals = [Fin 1]\<rparr>"

definition int8_triple :: "fl tensor" where
  "int8_triple = \<lparr>dtype = paddle_int8, shape = [3], vals = [Fin 5, Fin 2, Fin 7]\<rparr>"

definition float32_single :: "fl tensor" where
  "float32_single = \<lparr>dtype = paddle_float32, shape = [1], vals = [Fin 1]\<rparr>"

section \<open>Properties of \<open>build_flag\<close>\<close>

lemma inplace_name_unbound: "''BuiltInplace'' \<notin> dom module_globals"
  by (simp add: module_globals_def module_bindings_def dom_map_of_conv_image_fst)

text \<open>
  The nine keys whose mapped name is a declared flag: the assertion passes and the flag's
  strategy becomes \<open>st.just(b)\<close>.
\<close>

lemma build_flag_declared_keys:
  assumes "key \<in> set [''native_array'', ''as_variable'', ''container'', ''instance_method'',
                        ''test_gradients'', ''with_out'', ''test_compile'', ''transpile'',
                        ''precision_mode'']"
  shows "\<exists>name. map_of flags_mapping key = Some name \<and>
           build_flag module_globals key (Some b) =
             Inr (module_globals(name \<mapsto> Flag \<lparr>strategy = Some (st_just b)\<rparr>))"
proof -
  have "key = ''native_array'' \<or> key = ''as_variable'' \<or> key = ''container'' \<or>
        key = ''instance_method'' \<or> key = ''test_gradients'' \<or> key = ''with_out'' \<or>
        key = ''test_compile'' \<or> key = ''transpile'' \<or> key = ''precision_mode''"
    using assms by simp
  then show ?thesis
    by (elim disjE)
       (simp_all add: build_flag_def flags_mapping_def module_globals_def module_bindings_def
          dom_def)
qed

text \<open>
  C5. The claim says that \<open>build_flag\<close> passes its assertion for every key of
  \<open>flags_mapping\<close> and every boolean. The key \<open>inplace\<close> is mapped to \<open>BuiltInplace\<close>, while
  the module declares \<open>BuiltInplaceStrategy\<close>: on the module's globals the assertion fails
  for that key, whatever the boolean is.
\<close>

theorem build_flag_inplace_assertion_fails:
  "build_flag module_globals ''inplace'' (Some b) = Inl AssertionError"
  using inplace_name_unbound by (simp add: build_flag_def flags_mapping_def)

section \<open>Basic facts about tensors and native kernels\<close>

lemma dtype_astype [simp]: "dtype (astype N x d) = d"
  by (simp add: astype_def)

lemma shape_astype [simp]: "shape (astype N x d) = shape x"
  by (simp add: astype_def)

lemma vals_astype [simp]: "vals (astype N x d) = map (cast N (dtype x) d) (vals x)"
  by (simp add: astype_def)

lemma dtype_paddle1 [simp]: "dtype (paddle1 N k x) = unary_dtype k (dtype x)"
  and shape_paddle1 [simp]: "shape (paddle1 N k x) = shape x"
  and vals_paddle1 [simp]: "vals (paddle1 N k x) = map (unary N k (dtype x)) (vals x)"
  by (simp_all add: paddle1_def)

lemma paddle2_same_shape:
  assumes "shape x = shape y"
  shows "dtype (paddle2 N k x y) = binary_dtype N k (dtype x) (dtype y)"
    and "shape (paddle2 N k x y) = shape x"
    and "vals (paddle2 N k x y) = map2 (binary N k (dtype x) (dtype y)) (vals x) (vals y)"
  using assms by (simp_all add: paddle2_def)

lemma dtype_paddle2_scalar [simp]:
  "dtype (paddle2_scalar N k x s) = binary_dtype N k (dtype x) (scalar_dtype N s (dtype x))"
  and shape_paddle2_scalar [simp]: "shape (paddle2_scalar N k x s) = shape x"
  and vals_paddle2_scalar [simp]:
  "vals (paddle2_scalar N k x s) =
     map (\<lambda>v. binary N k (dtype x) (scalar_dtype N s (dtype x)) v
                 (of_scalar N s (scalar_dtype N s (dtype x)))) (vals x)"
  by (simp_all add: paddle2_scalar_def Let_def)

lemma dtype_scalar_paddle2 [simp]:
  "dtype (scalar_paddle2 N k s x) = binary_dtype N k (scalar_dtype N s (dtype x)) (dtype x)"
  and shape_scalar_paddle2 [simp]: "shape (scalar_paddle2 N k s x) = shape x"
  and vals_scalar_paddle2 [simp]:
  "vals (scalar_paddle2 N k s x) =
     map (\<lambda>v. binary N k (scalar_dtype N s (dtype x)) (dtype x)
                 (of_scalar N s (scalar_dtype N s (dtype x))) v) (vals x)"
  by (simp_all add: scalar_paddle2_def Let_def)

lemma map2_same: "map2 f (map g xs) (map h xs) = map (\<lambda>v. f (g v) (h v)) xs"
  by (induction xs) simp_all

lemma binary_dtype_simps [simp]:
  "binary_dtype N K_subtract d d = d"
  "binary_dtype N K_add d d = d"
  "binary_dtype N K_multiply d d = d"
  "binary_dtype N K_less_than d1 d2 = paddle_bool"
  "binary_dtype N K_less_equal d1 d2 = paddle_bool"
  "binary_dtype N K_greater_than d1 d2 = paddle_bool"
  "binary_dtype N K_greater_equal d1 d2 = paddle_bool"
  "binary_dtype N K_logical_and d1 d2 = paddle_bool"
  "binary_dtype N K_logical_or d1 d2 = paddle_bool"
  by (simp_all add: binary_dtype_def)

lemma unary_dtype_simps [simp]:
  "unary_dtype K_isnan d = paddle_bool"
  "unary_dtype K_isinf d = paddle_bool"
  "unary_dtype K_bitwise_not d = d"
  by (simp_all add: unary_dtype_def)

section \<open>Result dtypes of the binary operations\<close>

lemma helper_dtype: "elementwise_helper N x1 x2 = (a, b, r) \<Longrightarrow> dtype a = r"
  by (auto simp: elementwise_helper_def Let_def split: prod.splits)

lemma reference_helper_same:
  "elementwise_helper reference_native (Tensor a) (Tensor a) = (a, a, dtype a)"
  by (simp add: elementwise_helper_def reference_native_def reference_broadcast_def)

text \<open>
  C1. With \<open>(a, b, ret_dtype)\<close> the promoted and broadcast operands and their dtype, as
  \<open>_elementwise_helper\<close> returns them: the results of \<open>add\<close>, \<open>subtract\<close> and \<open>multiply\<close> have
  the dtype \<open>ret_dtype\<close>, for every \<open>alpha\<close>; and (for \<open>alpha\<close> absent or equal to \<open>1\<close>, where
  the second operand is not scaled) when \<open>ret_dtype\<close> is in the function's list of
  unsupported dtypes both operands are cast to \<open>float32\<close>, the native kernel is applied
  and its result is cast to \<open>ret_dtype\<close>, while for every other dtype the kernel is applied
  to the operands as they are and its result is cast to \<open>ret_dtype\<close>.
\<close>

theorem arithmetic_result_dtype:
  "(case elementwise_helper N x1 x2 of (a, b, ret_dtype) \<Rightarrow>
      dtype (add N x1 x2 alpha) = ret_dtype \<and>
      dtype (subtract N x1 x2 alpha) = ret_dtype \<and>
      dtype (multiply N x1 x2) = ret_dtype \<and>
      (\<not> alpha_not_in_1_None alpha \<longrightarrow>
         add N x1 x2 alpha =
           (if ret_dtype \<in> set [paddle_int8, paddle_uint8, paddle_float16, paddle_bool,
                                  paddle_bfloat16]
            then astype N (paddle2 N K_add (astype N a paddle_float32)
                             (astype N b paddle_float32)) ret_dtype
            else astype N (paddle2 N K_add a b) ret_dtype) \<and>
         subtract N x1 x2 alpha =
           (if ret_dtype \<in> set [paddle_int8, paddle_uint8, paddle_float16, paddle_bool]
            then astype N (paddle2 N K_subtract (astype N a paddle_float32)
                             (astype N b paddle_float32)) ret_dtype
            else astype N (paddle2 N K_subtract a b) ret_dtype)) \<and>
      multiply N x1 x2 =
        (if ret_dtype \<in> set [paddle_int8, paddle_int16, paddle_uint8, paddle_float16]
         then astype N (paddle2 N K_multiply (astype N a paddle_float32)
                          (astype N b paddle_float32)) ret_dtype
         else astype N (paddle2 N K_multiply a b) ret_dtype))"
proof (cases "elementwise_helper N x1 x2")
  case (fields a b r)
  have d: "dtype a = r" using fields by (rule helper_dtype)
  have 1: "dtype (add N x1 x2 alpha) = r"
    using fields by (simp add: add_def Let_def split: prod.splits option.splits)
  have 2: "dtype (subtract N x1 x2 alpha) = r"
    using fields by (simp add: subtract_def Let_def split: prod.splits option.splits)
  have 3: "multiply N x1 x2 =
        (if r \<in> set [paddle_int8, paddle_int16, paddle_uint8, paddle_float16]
         then astype N (paddle2 N K_multiply (astype N a paddle_float32)
                          (astype N b paddle_float32)) r
         else astype N (paddle2 N K_multiply a b) r)"
    using fields d by (simp add: multiply_def Let_def)
  have 4: "\<not> alpha_not_in_1_None alpha \<Longrightarrow> add N x1 x2 alpha =
           (if r \<in> set [paddle_int8, paddle_uint8, paddle_float16, paddle_bool, paddle_bfloat16]
            then astype N (paddle2 N K_add (astype N a paddle_float32)
                             (astype N b paddle_float32)) r
            else astype N (paddle2 N K_add a b) r)"
    using fields d by (simp add: add_def alpha_not_in_1_None_def Let_def split: option.splits)
  have 5: "\<not> alpha_not_in_1_None alpha \<Longrightarrow> subtract N x1 x2 alpha =
           (if r \<in> set [paddle_int8, paddle_uint8, paddle_float16, paddle_bool]
            then astype N (paddle2 N K_subtract (astype N a paddle_float32)
                             (astype N b paddle_float32)) r
            else astype N (paddle2 N K_subtract a b) r)"
    using fields d
    by (simp add: subtract_def alpha_not_in_1_None_def Let_def split: option.splits)
  have 6: "dtype (multiply N x1 x2) = r" by (simp add: 3)
  show ?thesis using fields 1 2 3 4 5 6 by simp
qed

text \<open>The instance at two \<open>int8\<close> tensors in the reference environment, \<open>alpha\<close> absent.\<close>

theorem arithmetic_result_dtype_witness:
  "\<not> alpha_not_in_1_None None \<and>
   dtype (add reference_native (Tensor int8_pair) (Tensor int8_pair) None) = paddle_int8 \<and>
   dtype (subtract reference_native (Tensor int8_pair) (Tensor int8_pair) None) = paddle_int8 \<and>
   dtype (multiply reference_native (Tensor int8_pair) (Tensor int8_pair)) = paddle_int8 \<and>
   add reference_native (Tensor int8_pair) (Tensor int8_pair) None =
     astype reference_native
       (paddle2 reference_native K_add (astype reference_native int8_pair paddle_float32)
          (astype reference_native int8_pair paddle_float32)) paddle_int8"
  using arithmetic_result_dtype [of reference_native "Tensor int8_pair" "Tensor int8_pair" None]
  by (simp add: reference_helper_same alpha_not_in_1_None_def int8_pair_def)

lemma dtype_paddle2_bool:
  "k \<in> set [K_less_than, K_less_equal, K_greater_than, K_greater_equal, K_logical_and,
            K_logical_or]
   \<Longrightarrow> dtype (paddle2 N k x y) = paddle_bool"
  by (auto simp: paddle2_def binary_dtype_def Let_def split: prod.splits)

lemma dtype_logical_and [simp]: "dtype (logical_and N x1 x2) = paddle_bool"
  by (simp add: logical_and_def Let_def dtype_paddle2_bool split: prod.splits)

lemma dtype_less_op: "dtype (less_op N x1 x2) = paddle_bool"
  by (simp add: less_op_def Let_def dtype_paddle2_bool split: prod.splits)

lemma dtype_less_equal: "dtype (less_equal N x1 x2) = paddle_bool"
  by (simp add: less_equal_def Let_def dtype_paddle2_bool split: prod.splits)

lemma dtype_greater_op: "dtype (greater_op N x1 x2) = paddle_bool"
  by (simp add: greater_op_def Let_def dtype_paddle2_bool split: prod.splits)

lemma dtype_greater_equal: "dtype (greater_equal N x1 x2) = paddle_bool"
  by (simp add: greater_equal_def Let_def dtype_paddle2_bool split: prod.splits)

text \<open>
  C4, as the claim states it, fails: \<open>less\<close> of two \<open>float32\<close> tensors is a \<open>bool\<close> tensor,
  while the promoted dtype of the operands is \<open>float32\<close>.
\<close>

theorem comparison_result_counterexample:
  "dtype (less_op reference_native (Tensor float32_single) (Tensor float32_single)) \<noteq>
   snd (snd (elementwise_helper reference_native (Tensor float32_single) (Tensor float32_single)))"
  by (simp add: dtype_less_op reference_helper_same float32_single_def)

text \<open>
  C4, amended. The four comparisons never cast their result: it has the dtype \<open>bool\<close> of
  the native comparison kernels, whatever the promoted dtype \<open>ret_dtype\<close> of the operands
  is. It is the native kernel's result on the promoted, broadcast operands as they are; on
  those operands cast to \<open>float32\<close> when \<open>ret_dtype\<close> is \<open>int8\<close> or \<open>uint8\<close>; and for the
  complex dtypes the logical and of the comparisons of the real and of the imaginary parts.
\<close>

theorem comparison_result_bool:
  "(case elementwise_helper N x1 x2 of (a, b, ret_dtype) \<Rightarrow>
      dtype (less_op N x1 x2) = paddle_bool \<and> dtype (less_equal N x1 x2) = paddle_bool \<and>
      dtype (greater_op N x1 x2) = paddle_bool \<and> dtype (greater_equal N x1 x2) = paddle_bool \<and>
      (ret_dtype \<notin> set [paddle_int8, paddle_uint8, paddle_complex64, paddle_complex128] \<longrightarrow>
         less_op N x1 x2 = paddle2 N K_less_than a b \<and>
         less_equal N x1 x2 = paddle2 N K_less_equal a b \<and>
         greater_op N x1 x2 = paddle2 N K_greater_than a b \<and>
         greater_equal N x1 x2 = paddle2 N K_greater_equal a b) \<and>
      (ret_dtype \<in> set [paddle_int8, paddle_uint8] \<longrightarrow>
         less_op N x1 x2 =
           paddle2 N K_less_than (astype N a paddle_float32) (astype N b paddle_float32) \<and>
         less_equal N x1 x2 =
           paddle2 N K_less_equal (astype N a paddle_float32) (astype N b paddle_float32) \<and>
         greater_op N x1 x2 =
           paddle2 N K_greater_than (astype N a paddle_float32) (astype N b paddle_float32) \<and>
         greater_equal N x1 x2 =
           paddle2 N K_greater_equal (astype N a paddle_float32) (astype N b paddle_float32)) \<and>
      (ret_dtype \<in> set [paddle_complex64, paddle_complex128] \<longrightarrow>
         less_op N x1 x2 =
           logical_and N
             (Tensor (paddle2 N K_less_than (paddle1 N K_real a) (paddle1 N K_real b)))
             (Tensor (paddle2 N K_less_than (paddle1 N K_imag a) (paddle1 N K_imag b))) \<and>
         less_equal N x1 x2 =
           logical_and N
             (Tensor (paddle2 N K_less_equal (paddle1 N K_real a) (paddle1 N K_real b)))
             (Tensor (paddle2 N K_less_equal (paddle1 N K_imag a) (paddle1 N K_imag b))) \<and>
         greater_op N x1 x2 =
           paddle2 N K_logical_and
             (paddle2 N K_greater_than (paddle1 N K_real a) (paddle1 N K_real b))
             (paddle2 N K_greater_than (paddle1 N K_imag a) (paddle1 N K_imag b)) \<and>
         greater_equal N x1 x2 =
           paddle2 N K_logical_and
             (paddle2 N K_greater_equal (paddle1 N K_real a) (paddle1 N K_real b))
             (paddle2 N K_greater_equal (paddle1 N K_imag a) (paddle1 N K_imag b))))"
proof (cases "elementwise_helper N x1 x2")
  case (fields a b r)
  have d: "dtype a = r" using fields by (rule helper_dtype)
  have 1: "r \<notin> set [paddle_int8, paddle_uint8, paddle_complex64, paddle_complex128] \<Longrightarrow>
         less_op N x1 x2 = paddle2 N K_less_than a b \<and>
         less_equal N x1 x2 = paddle2 N K_less_equal a b \<and>
         greater_op N x1 x2 = paddle2 N K_greater_than a b \<and>
         greater_equal N x1 x2 = paddle2 N K_greater_equal a b"
    using fields d
    by (simp add: less_op_def less_equal_def greater_op_def greater_equal_def Let_def)
  have 2: "r \<in> set [paddle_int8, paddle_uint8] \<Longrightarrow>
         less_op N x1 x2 =
           paddle2 N K_less_than (astype N a paddle_float32) (astype N b paddle_float32) \<and>
         less_equal N x1 x2 =
           paddle2 N K_less_equal (astype N a paddle_float32) (astype N b paddle_float32) \<and>
         greater_op N x1 x2 =
           paddle2 N K_greater_than (astype N a paddle_float32) (astype N b paddle_float32) \<and>
         greater_equal N x1 x2 =
           paddle2 N K_greater_equal (astype N a paddle_float32) (astype N b paddle_float32)"
    using fields d
    by (auto simp: less_op_def less_equal_def greater_op_def greater_equal_def Let_def
        is_complex_def)
  have 3: "r \<in> set [paddle_complex64, paddle_complex128] \<Longrightarrow>
         less_op N x1 x2 =
           logical_and N
             (Tensor (paddle2 N K_less_than (paddle1 N K_real a) (paddle1 N K_real b)))
             (Tensor (paddle2 N K_less_than (paddle1 N K_imag a) (paddle1 N K_imag b))) \<and>
         less_equal N x1 x2 =
           logical_and N
             (Tensor (paddle2 N K_less_equal (paddle1 N K_real a) (paddle1 N K_real b)))
             (Tensor (paddle2 N K_less_equal (paddle1 N K_imag a) (paddle1 N K_imag b))) \<and>
         greater_op N x1 x2 =
           paddle2 N K_logical_and
             (paddle2 N K_greater_than (paddle1 N K_real a) (paddle1 N K_real b))
             (paddle2 N K_greater_than (paddle1 N K_imag a) (paddle1 N K_imag b)) \<and>
         greater_equal N x1 x2 =
           paddle2 N K_logical_and
             (paddle2 N K_greater_equal (paddle1 N K_real a) (paddle1 N K_real b))
             (paddle2 N K_greater_equal (paddle1 N K_imag a) (paddle1 N K_imag b))"
    using fields d
    by (auto simp: less_op_def less_equal_def greater_op_def greater_equal_def Let_def
        is_complex_def)
  show ?thesis
    using fields 1 2 3
    by (simp add: dtype_less_op dtype_less_equal dtype_greater_op dtype_greater_equal)
qed

theorem comparison_result_bool_witness:
  "paddle_float32 \<notin> set [paddle_int8, paddle_uint8, paddle_complex64, paddle_complex128] \<and>
   dtype (less_op reference_native (Tensor float32_single) (Tensor float32_single)) = paddle_bool \<and>
   less_op reference_native (Tensor float32_single) (Tensor float32_single) =
     paddle2 reference_native K_less_than float32_single float32_single"
proof -
  have d: "dtype float32_single = paddle_float32"
    by (simp add: float32_single_def)
  show ?thesis
    using comparison_result_bool
            [of reference_native "Tensor float32_single" "Tensor float32_single"]
    by (simp add: reference_helper_same d dtype_paddle2_bool)
qed

section \<open>\<open>sqrt\<close> never reaches its \<open>raise\<close>\<close>

text \<open>
  C6. For a tensor of any of the ten non-complex dtypes \<open>sqrt\<close> returns a tensor and does
  not raise \<open>ValueError\<close>: on \<open>float32\<close> and \<open>float64\<close> it is the native kernel's result, and
  for every other such dtype \<open>_determine_sqrt_dtype_cast\<close> gives an intermediate and an
  output dtype, through which the kernel is applied.
\<close>

theorem sqrt_returns:
  assumes "dtype x \<in> set [paddle_bool, paddle_int8, paddle_int16, paddle_int32, paddle_int64,
                           paddle_uint8, paddle_float16, paddle_bfloat16, paddle_float32,
                           paddle_float64]"
  shows "(\<exists>y. sqrt_op N x = Inr y) \<and> sqrt_op N x \<noteq> Inl ValueError \<and>
         (dtype x \<in> set [paddle_float32, paddle_float64] \<longrightarrow>
            sqrt_op N x = Inr (paddle1 N K_sqrt x)) \<and>
         (dtype x \<notin> set [paddle_float32, paddle_float64] \<longrightarrow>
            (\<exists>idt odt. determine_sqrt_dtype_cast (dtype x) = (Some idt, Some odt) \<and>
               sqrt_op N x = Inr (astype N (paddle1 N K_sqrt (astype N x idt)) odt)))"
  using assms
  by (auto simp: sqrt_op_def is_complex_def determine_sqrt_dtype_cast_def Let_def)

theorem sqrt_returns_witness:
  "dtype bool_single \<in> set [paddle_bool, paddle_int8, paddle_int16, paddle_int32, paddle_int64,
                           paddle_uint8, paddle_float16, paddle_bfloat16, paddle_float32,
                           paddle_float64] \<and>
   dtype bool_single \<notin> set [paddle_float32, paddle_float64] \<and>
   determine_sqrt_dtype_cast (dtype bool_single) = (Some paddle_float32, Some paddle_float32) \<and>
   sqrt_op reference_native bool_single =
     Inr (astype reference_native
            (paddle1 reference_native K_sqrt (astype reference_native bool_single paddle_float32))
            paddle_float32)"
  using sqrt_returns [of bool_single reference_native]
  by (simp add: bool_single_def determine_sqrt_dtype_cast_def)

section \<open>\<open>apply_flags\<close>\<close>

lemma apply_loop_map:
  "(\<And>j. j < length rest \<Longrightarrow> step (i + int j) (rest ! j) = Inr (g (i + int j) (rest ! j)))
   \<Longrightarrow> apply_loop step i ret rest = Inr (ret @ map (\<lambda>j. g (i + int j) (rest ! j)) [0..<length rest])"
proof (induction rest arbitrary: i ret)
  case Nil
  then show ?case by simp
next
  case (Cons entry rest)
  have h0: "step i entry = Inr (g i entry)" using Cons.prems [of 0] by simp
  have hs: "step (i + 1 + int j) (rest ! j) = Inr (g (i + 1 + int j) (rest ! j))"
    if "j < length rest" for j
  proof -
    have e: "i + int (Suc j) = i + 1 + int j" by simp
    show ?thesis using Cons.prems [of "Suc j"] that unfolding e by simp
  qed
  have "apply_loop step (i + 1) (ret @ [g i entry]) rest =
        Inr ((ret @ [g i entry]) @ map (\<lambda>j. g (i + 1 + int j) (rest ! j)) [0..<length rest])"
    by (rule Cons.IH) (rule hs)
  show ?case
  proof -
    have e: "\<And>j. i + int (Suc j) = i + 1 + int j" by simp
    show ?thesis using h0 \<open>apply_loop step (i + 1) (ret @ [g i entry]) rest = _\<close>
      by (simp add: map_upt_Suc e del: upt_Suc of_nat_Suc)
  qed
qed

lemma flag_step_ok:
  "valid_index input_dtypes i \<Longrightarrow> valid_index av i \<Longrightarrow> valid_index na i \<Longrightarrow>
   flag_step B av na input_dtypes on_device i entry =
     Inr (let x = array B entry (py_get input_dtypes i) on_device;
              x = (if py_get av i then gradients_variable B x else x)
          in if py_get na i then to_native B x else x)"
  by (simp add: flag_step_def py_index_def Let_def)

lemma flag_step_container_ok:
  "valid_index input_dtypes i \<Longrightarrow> valid_index av i \<Longrightarrow> valid_index na i \<Longrightarrow> valid_index co i \<Longrightarrow>
   flag_step_container B av na co input_dtypes on_device i entry =
     Inr (let x = array B entry (py_get input_dtypes i) on_device;
              x = (if py_get av i then gradients_variable B x else x);
              x = (if py_get na i then to_native B x else x)
          in if py_get co i then Container B (container_of x) else x)"
  by (simp add: flag_step_container_def flag_step_ok py_index_def Let_def)

lemma apply_loop_raises:
  assumes only: "\<And>k x e'. step k x = Inl e' \<Longrightarrow> e' = e"
  shows "j < length rest \<Longrightarrow> step (i + int j) (rest ! j) = Inl e
         \<Longrightarrow> apply_loop step i ret rest = Inl e"
proof (induction rest arbitrary: i ret j)
  case Nil
  then show ?case by simp
next
  case (Cons entry rest)
  show ?case
  proof (cases "step i entry")
    case (Inl e')
    then show ?thesis using only [OF Inl] by simp
  next
    case (Inr x)
    then obtain j' where j: "j = Suc j'" using Cons.prems by (cases j) auto
    have e: "i + int (Suc j') = i + 1 + int j'" by simp
    have "apply_loop step (i + 1) (ret @ [x]) rest = Inl e"
      by (rule Cons.IH [of j']) (use Cons.prems j in \<open>simp_all add: e del: of_nat_Suc\<close>)
    then show ?thesis using Inr by simp
  qed
qed

lemma flag_step_only_IndexError:
  "flag_step B av na input_dtypes on_device i entry = Inl e \<Longrightarrow> e = IndexError"
  by (simp add: flag_step_def py_index_def Let_def split: if_splits)

lemma flag_step_container_only_IndexError:
  "flag_step_container B av na co input_dtypes on_device i entry = Inl e \<Longrightarrow> e = IndexError"
  using flag_step_only_IndexError [of B av na input_dtypes on_device i entry]
  by (auto simp add: flag_step_container_def py_index_def split: sum.splits if_splits)

lemma flag_step_out_of_range:
  "\<not> (valid_index input_dtypes i \<and> valid_index av i \<and> valid_index na i) \<Longrightarrow>
   flag_step B av na input_dtypes on_device i entry = Inl IndexError"
  by (auto simp add: flag_step_def py_index_def Let_def)

lemma flag_step_container_out_of_range:
  assumes "\<not> (valid_index input_dtypes i \<and> valid_index av i \<and> valid_index na i \<and> valid_index co i)"
  shows "flag_step_container B av na co input_dtypes on_device i entry = Inl IndexError"
proof (cases "valid_index input_dtypes i \<and> valid_index av i \<and> valid_index na i")
  case True
  then show ?thesis using assms by (simp add: flag_step_container_def flag_step_ok py_index_def)
next
  case False
  then show ?thesis by (simp add: flag_step_container_def flag_step_out_of_range)
qed

lemma apply_loop_flag_step:
  "apply_loop (flag_step B av na input_dtypes on_device) offset [] args =
     (if \<forall>j < length args. valid_index input_dtypes (offset + int j) \<and>
            valid_index av (offset + int j) \<and> valid_index na (offset + int j)
      then Inr (map (\<lambda>j. let x = array B (args ! j) (py_get input_dtypes (offset + int j)) on_device;
                              x = (if py_get av (offset + int j) then gradients_variable B x else x)
                          in if py_get na (offset + int j) then to_native B x else x)
                  [0..<length args])
      else Inl IndexError)"
proof (cases "\<forall>j < length args. valid_index input_dtypes (offset + int j) \<and>
            valid_index av (offset + int j) \<and> valid_index na (offset + int j)")
  case True
  have "apply_loop (flag_step B av na input_dtypes on_device) offset [] args =
        Inr ([] @ map (\<lambda>j. let x = array B (args ! j) (py_get input_dtypes (offset + int j)) on_device;
                              x = (if py_get av (offset + int j) then gradients_variable B x else x)
                          in if py_get na (offset + int j) then to_native B x else x)
                  [0..<length args])"
    by (rule apply_loop_map) (use True in \<open>simp add: flag_step_ok\<close>)
  then show ?thesis using True by simp
next
  case False
  then obtain j where j: "j < length args"
    "\<not> (valid_index input_dtypes (offset + int j) \<and> valid_index av (offset + int j) \<and>
        valid_index na (offset + int j))" by blast
  have "apply_loop (flag_step B av na input_dtypes on_device) offset [] args = Inl IndexError"
  proof (rule apply_loop_raises [OF _ j(1)])
    show "e' = IndexError" if "flag_step B av na input_dtypes on_device k x = Inl e'" for k x e'
      using that by (rule flag_step_only_IndexError)
    show "flag_step B av na input_dtypes on_device (offset + int j) (args ! j) = Inl IndexError"
      by (rule flag_step_out_of_range [OF j(2)])
  qed
  then show ?thesis using False by simp
qed

lemma apply_loop_flag_step_container:
  "apply_loop (flag_step_container B av na co input_dtypes on_device) offset [] args =
     (if \<forall>j < length args. valid_index input_dtypes (offset + int j) \<and>
            valid_index av (offset + int j) \<and> valid_index na (offset + int j) \<and>
            valid_index co (offset + int j)
      then Inr (map (\<lambda>j. let x = array B (args ! j) (py_get input_dtypes (offset + int j)) on_device;
                              x = (if py_get av (offset + int j) then gradients_variable B x else x);
                              x = (if py_get na (offset + int j) then to_native B x else x)
                          in if py_get co (offset + int j) then Container B (container_of x) else x)
                  [0..<length args])
      else Inl IndexError)"
proof (cases "\<forall>j < length args. valid_index input_dtypes (offset + int j) \<and>
            valid_index av (offset + int j) \<and> valid_index na (offset + int j) \<and>
            valid_index co (offset + int j)")
  case True
  have "apply_loop (flag_step_container B av na co input_dtypes on_device) offset [] args =
        Inr ([] @ map (\<lambda>j. let x = array B (args ! j) (py_get input_dtypes (offset + int j)) on_device;
                              x = (if py_get av (offset + int j) then gradients_variable B x else x);
                              x = (if py_get na (offset + int j) then to_native B x else x)
                          in if py_get co (offset + int j) then Container B (container_of x) else x)
                  [0..<length args])"
    by (rule apply_loop_map) (use True in \<open>simp add: flag_step_container_ok\<close>)
  then show ?thesis using True by simp
next
  case False
  then obtain j where j: "j < length args"
    "\<not> (valid_index input_dtypes (offset + int j) \<and> valid_index av (offset + int j) \<and>
        valid_index na (offset + int j) \<and> valid_index co (offset + int j))" by blast
  have "apply_loop (flag_step_container B av na co input_dtypes on_device) offset [] args =
        Inl IndexError"
  proof (rule apply_loop_raises [OF _ j(1)])
    show "e' = IndexError"
      if "flag_step_container B av na co input_dtypes on_device k x = Inl e'" for k x e'
      using that by (rule flag_step_container_only_IndexError)
    show "flag_step_container B av na co input_dtypes on_device (offset + int j) (args ! j) =
          Inl IndexError"
      by (rule flag_step_container_out_of_range [OF j(2)])
  qed
  then show ?thesis using False by simp
qed

text \<open>
  C2, amended. For each of the five holders, every raw argument list, dtype list and
  offset: when every index \<open>offset + j\<close> the loop reads is a valid index of \<open>input_dtypes\<close>,
  \<open>as_variable\<close>, \<open>native_arrays\<close> and (for \<open>FunctionTestFlags\<close> and \<open>MethodTestFlags\<close>)
  \<open>container\<close>, \<open>apply_flags\<close> returns one value per raw value, in order, the \<open>j\<close>-th being
  the \<open>j\<close>-th raw value materialized as the claim describes; and when some index is out of
  range, the call raises \<open>IndexError\<close>.
\<close>

theorem apply_flags_result:
  "apply_flags B self args input_dtypes offset on_device =
     (if \<forall>j < length args. flags_in_range self input_dtypes (offset + int j)
      then Inr (map (\<lambda>j. flagged_entry B self input_dtypes on_device (offset + int j) (args ! j))
                  [0..<length args])
      else Inl IndexError)"
proof (cases self)
  case (FunctionTestFlags g n w im av na co tg tc pm)
  then show ?thesis
    by (simp add: apply_loop_flag_step_container flags_in_range_def flagged_entry_def)
next
  case (FrontendFunctionTestFlags n w ip av na tc gf tr pm)
  then show ?thesis
    by (simp add: apply_loop_flag_step flags_in_range_def flagged_entry_def)
next
  case (InitMethodTestFlags n av na pm)
  then show ?thesis
    by (simp add: apply_loop_flag_step flags_in_range_def flagged_entry_def)
next
  case (MethodTestFlags n av na co pm)
  then show ?thesis
    by (simp add: apply_loop_flag_step_container flags_in_range_def flagged_entry_def)
next
  case (FrontendMethodTestFlags n av na pm tc)
  then show ?thesis
    by (simp add: apply_loop_flag_step flags_in_range_def flagged_entry_def)
qed

text \<open>
  C2, as the claim states it, fails: with one-element flag lists (the size the module's own
  list strategies draw) and two raw values, \<open>as_variable[1]\<close> raises \<open>IndexError\<close> and no
  list is returned.
\<close>

theorem apply_flags_counterexample:
  "apply_flags symbolic_backend one_element_flags [1::int, 2] [''float32'', ''float32''] 0 ''cpu''
   = Inl IndexError"
  by (simp add: one_element_flags_def flag_step_container_def flag_step_def py_index_def
      valid_index_def py_get_def symbolic_backend_def)

theorem apply_flags_result_witness:
  "flags_in_range two_element_flags [''float32'', ''int8''] 0 \<and>
   flags_in_range two_element_flags [''float32'', ''int8''] 1 \<and>
   apply_flags symbolic_backend two_element_flags [1::int, 2] [''float32'', ''int8''] 0 ''cpu'' =
     Inr [Variable (Array 1 ''float32'' ''cpu''),
          ContainerOf (container_of (Native (Array 2 ''int8'' ''cpu'')))] \<and>
   apply_flags symbolic_backend two_element_flags [1::int, 2, 3] [''float32'', ''int8''] 0 ''cpu'' =
     Inl IndexError"
proof -
  have r: "flags_in_range two_element_flags [''float32'', ''int8''] 0"
          "flags_in_range two_element_flags [''float32'', ''int8''] 1"
          "\<not> flags_in_range two_element_flags [''float32'', ''int8''] 2"
    by (simp_all add: flags_in_range_def two_element_flags_def valid_index_def)
  have h: "\<forall>j < length [1::int, 2].
             flags_in_range two_element_flags [''float32'', ''int8''] (0 + int j)"
    using r by (simp add: less_Suc_eq)
  have n: "\<not> (\<forall>j < length [1::int, 2, 3].
             flags_in_range two_element_flags [''float32'', ''int8''] (0 + int j))"
    using r(3) by (auto intro: exI [of _ 2])
  have u: "[0..<2] = [0, Suc 0]" by (simp add: upt_rec)
  have a: "apply_flags symbolic_backend two_element_flags [1::int, 2] [''float32'', ''int8''] 0 ''cpu'' =
     Inr [Variable (Array 1 ''float32'' ''cpu''),
          ContainerOf (container_of (Native (Array 2 ''int8'' ''cpu'')))]"
    using h apply_flags_result [of symbolic_backend two_element_flags "[1::int, 2]"
        "[''float32'', ''int8'']" 0 "''cpu''"]
    by (simp add: u flagged_entry_def two_element_flags_def py_get_def symbolic_backend_def)
  have b: "apply_flags symbolic_backend two_element_flags [1::int, 2, 3] [''float32'', ''int8''] 0
             ''cpu'' = Inl IndexError"
    using n apply_flags_result [of symbolic_backend two_element_flags "[1::int, 2, 3]"
        "[''float32'', ''int8'']" 0 "''cpu''"]
    by simp
  show ?thesis using r(1,2) a b by blast
qed

section \<open>Effects\<close>

text \<open>
  C8, as the claim states it, fails: \<open>build_flag\<close> is an operation of the test-flag module
  whose effect is not its return value. On the module's globals, \<open>build_flag("with_out",
  True)\<close> replaces the strategy of \<open>BuiltWithOutStrategy\<close>.
\<close>

theorem build_flag_changes_globals:
  "build_flag module_globals ''with_out'' (Some True) =
     Inr (module_globals(''BuiltWithOutStrategy'' \<mapsto> Flag \<lparr>strategy = Some (st_just True)\<rparr>)) \<and>
   module_globals(''BuiltWithOutStrategy'' \<mapsto> Flag \<lparr>strategy = Some (st_just True)\<rparr>)
     \<noteq> module_globals"
proof -
  let ?g = "module_globals(''BuiltWithOutStrategy'' \<mapsto> Flag \<lparr>strategy = Some (st_just True)\<rparr>)"
  have w: "module_globals ''BuiltWithOutStrategy'' = Some (Flag \<lparr>strategy = Some st_booleans\<rparr>)"
    by (simp add: module_globals_def module_bindings_def)
  have 1: "build_flag module_globals ''with_out'' (Some True) = Inr ?g"
    using w by (simp add: build_flag_def flags_mapping_def dom_def)
  have "?g ''BuiltWithOutStrategy'' \<noteq> module_globals ''BuiltWithOutStrategy''"
    using w by simp
  then have 2: "?g \<noteq> module_globals" by metis
  show ?thesis using 1 2 by blast
qed

section \<open>The complex branches of \<open>cosh\<close> and \<open>sin\<close>\<close>

text \<open>The two identities, from the exponential form of \<open>cosh\<close> and from Euler's formula.\<close>

lemma cosh_Complex:
  "cosh (Complex a b) = Complex (cosh a * cos b) (sinh a * sin b)"
proof (rule complex_eqI)
  show "Re (cosh (Complex a b)) = Re (Complex (cosh a * cos b) (sinh a * sin b))"
    by (simp add: cosh_field_def Re_exp Im_exp algebra_simps add_divide_distrib)
  show "Im (cosh (Complex a b)) = Im (Complex (cosh a * cos b) (sinh a * sin b))"
    by (simp add: cosh_field_def sinh_field_def Re_exp Im_exp algebra_simps diff_divide_distrib)
qed

lemma i_power_coeff:
  "\<i> ^ n = of_real (cos_coeff n * fact n) + \<i> * of_real (sin_coeff n * fact n)"
proof (induction n)
  case 0
  show ?case by simp
next
  case (Suc n)
  have "\<i> ^ Suc n = \<i> * \<i> ^ n" by simp
  also have "\<dots> = \<i> * (of_real (cos_coeff n * fact n) + \<i> * of_real (sin_coeff n * fact n))"
    by (simp only: Suc.IH)
  also have "\<dots> = of_real (- sin_coeff n * fact n) + \<i> * of_real (cos_coeff n * fact n)"
    by (simp add: algebra_simps)
  also have "\<dots> = of_real (cos_coeff (Suc n) * fact (Suc n)) +
                   \<i> * of_real (sin_coeff (Suc n) * fact (Suc n))"
    by (simp add: cos_coeff_Suc sin_coeff_Suc del: of_real_mult of_real_minus)
  finally show ?case .
qed

lemma exp_i_times: "exp (\<i> * z) = cos z + \<i> * sin z"
proof -
  have t: "(\<i> * z) ^ n /\<^sub>R fact n = cos_coeff n *\<^sub>R z ^ n + \<i> * (sin_coeff n *\<^sub>R z ^ n)" for n
  proof -
    have "(\<i> * z) ^ n /\<^sub>R fact n = (\<i> ^ n / of_real (fact n)) * z ^ n"
      by (simp add: power_mult_distrib scaleR_conv_of_real field_simps)
    also have "\<i> ^ n / of_real (fact n) = of_real (cos_coeff n) + \<i> * of_real (sin_coeff n)"
      by (simp add: i_power_coeff [of n] add_divide_distrib)
    finally show ?thesis by (simp add: scaleR_conv_of_real algebra_simps)
  qed
  have "(\<lambda>n. cos_coeff n *\<^sub>R z ^ n + \<i> * (sin_coeff n *\<^sub>R z ^ n)) sums (cos z + \<i> * sin z)"
    by (intro sums_add sums_mult cos_converges sin_converges)
  moreover have "(\<lambda>n. (\<i> * z) ^ n /\<^sub>R fact n) sums exp (\<i> * z)"
    by (rule exp_converges)
  ultimately show ?thesis
    by (simp add: t sums_unique2)
qed

lemma sin_Complex:
  "sin (Complex a b) = Complex (sin a * cosh b) (cos a * sinh b)"
proof -
  let ?z = "Complex a b"
  let ?c = "Complex (sin a * cosh b) (cos a * sinh b)"
  have e1: "exp (\<i> * ?z) = Complex (exp (- b) * cos a) (exp (- b) * sin a)"
    by (simp add: complex_eq_iff Re_exp Im_exp)
  have e2: "exp (\<i> * (- ?z)) = Complex (exp b * cos a) (- (exp b * sin a))"
    by (simp add: complex_eq_iff Re_exp Im_exp)
  have p: "exp (\<i> * ?z) = cos ?z + \<i> * sin ?z" by (rule exp_i_times)
  have m: "exp (\<i> * (- ?z)) = cos ?z - \<i> * sin ?z" using exp_i_times [of "- ?z"] by simp
  have "2 * \<i> * sin ?z = exp (\<i> * ?z) - exp (\<i> * (- ?z))" using p m by simp
  also have "\<dots> = 2 * \<i> * ?c"
    unfolding e1 e2
    by (simp add: complex_eq_iff cosh_field_def sinh_field_def exp_minus field_simps)
  finally have "2 * \<i> * sin ?z = 2 * \<i> * ?c" .
  then show ?thesis by simp
qed

text \<open>
  C3. On a complex tensor \<open>cosh\<close> is the hand-expanded expression over the real and the
  imaginary part, whose every element is \<open>cosh(a)cos(b) + i sinh(a)sin(b)\<close> for the element
  \<open>a + bi\<close> of the input, which is the complex hyperbolic cosine of that element; likewise
  \<open>sin\<close> gives \<open>sin(a)cosh(b) + i cos(a)sinh(b)\<close>, the complex sine. Both keep the dtype.
\<close>

theorem complex_cosh_sin:
  assumes "exact_kernels N" "is_complex x" "i < length (vals x)"
  shows
    "cosh_op N x =
       paddle2 N K_complex
         (paddle2 N K_multiply (paddle1 N K_cosh (paddle1 N K_real x))
            (paddle1 N K_cos (paddle1 N K_imag x)))
         (paddle2 N K_multiply (paddle1 N K_sinh (paddle1 N K_real x))
            (paddle1 N K_sin (paddle1 N K_imag x))) \<and>
     vals (cosh_op N x) ! i =
       Complex (cosh (Re (vals x ! i)) * cos (Im (vals x ! i)))
               (sinh (Re (vals x ! i)) * sin (Im (vals x ! i))) \<and>
     vals (cosh_op N x) ! i = cosh (vals x ! i) \<and>
     sin_op N x =
       paddle2 N K_complex
         (paddle2 N K_multiply (paddle1 N K_sin (paddle1 N K_real x))
            (paddle1 N K_cosh (paddle1 N K_imag x)))
         (paddle2 N K_multiply (paddle1 N K_cos (paddle1 N K_real x))
            (paddle1 N K_sinh (paddle1 N K_imag x))) \<and>
     vals (sin_op N x) ! i =
       Complex (sin (Re (vals x ! i)) * cosh (Im (vals x ! i)))
               (cos (Re (vals x ! i)) * sinh (Im (vals x ! i))) \<and>
     vals (sin_op N x) ! i = sin (vals x ! i) \<and>
     dtype (cosh_op N x) = dtype x \<and> dtype (sin_op N x) = dtype x"
proof -
  have c: "dtype x = paddle_complex64 \<or> dtype x = paddle_complex128"
    using assms(2) by (simp add: is_complex_def)
  have nl: "dtype x \<notin> set [paddle_int8, paddle_int16, paddle_int32, paddle_int64, paddle_uint8,
                            paddle_float16]"
    using c by auto
  define fd where "fd = unary_dtype K_real (dtype x)"
  have fd: "fd = paddle_float32 \<or> fd = paddle_float64" "unary_dtype K_imag (dtype x) = fd"
    using c by (auto simp: fd_def unary_dtype_def)
  have fdm: "fd \<in> set [paddle_float32, paddle_float64]" using fd(1) by auto
  have ud: "unary_dtype K_cosh fd = fd" "unary_dtype K_sinh fd = fd" "unary_dtype K_cos fd = fd"
    "unary_dtype K_sin fd = fd"
    using fd(1) by (auto simp: unary_dtype_def)
  have bd: "binary_dtype N K_multiply fd fd = fd"
    "binary_dtype N K_complex fd fd = dtype x"
    using c by (auto simp: binary_dtype_def fd_def unary_dtype_def)
  have k1: "unary N K_cosh fd z = of_real (cosh (Re z))" "unary N K_sinh fd z = of_real (sinh (Re z))"
    "unary N K_cos fd z = of_real (cos (Re z))" "unary N K_sin fd z = of_real (sin (Re z))"
    "binary N K_multiply fd fd z w = of_real (Re z * Re w)"
    "binary N K_complex fd fd z w = Complex (Re z) (Re w)" for z w
    using assms(1) fdm unfolding exact_kernels_def by blast+
  have k2: "unary N K_real (dtype x) z = of_real (Re z)" "unary N K_imag (dtype x) z = of_real (Im z)"
    for z
    using assms(1,2) unfolding exact_kernels_def is_complex_def by blast+
  have e1: "cosh_op N x =
       paddle2 N K_complex
         (paddle2 N K_multiply (paddle1 N K_cosh (paddle1 N K_real x))
            (paddle1 N K_cos (paddle1 N K_imag x)))
         (paddle2 N K_multiply (paddle1 N K_sinh (paddle1 N K_real x))
            (paddle1 N K_sin (paddle1 N K_imag x)))"
    using nl assms(2) by (simp add: cosh_op_def Let_def)
  have e2: "sin_op N x =
       paddle2 N K_complex
         (paddle2 N K_multiply (paddle1 N K_sin (paddle1 N K_real x))
            (paddle1 N K_cosh (paddle1 N K_imag x)))
         (paddle2 N K_multiply (paddle1 N K_cos (paddle1 N K_real x))
            (paddle1 N K_sinh (paddle1 N K_imag x)))"
    using nl assms(2) by (simp add: sin_op_def Let_def)
  have v1: "vals (cosh_op N x) =
      map (\<lambda>z. Complex (cosh (Re z) * cos (Im z)) (sinh (Re z) * sin (Im z))) (vals x)"
    unfolding e1
    by (simp add: paddle2_same_shape fd(2) fd_def [symmetric] ud bd k1 k2 map2_same o_def)
  have v2: "vals (sin_op N x) =
      map (\<lambda>z. Complex (sin (Re z) * cosh (Im z)) (cos (Re z) * sinh (Im z))) (vals x)"
    unfolding e2
    by (simp add: paddle2_same_shape fd(2) fd_def [symmetric] ud bd k1 k2 map2_same o_def)
  have d1: "dtype (cosh_op N x) = dtype x" "dtype (sin_op N x) = dtype x"
    unfolding e1 e2
    by (simp_all add: paddle2_same_shape fd(2) fd_def [symmetric] ud bd)
  have m1: "cosh z = Complex (cosh (Re z) * cos (Im z)) (sinh (Re z) * sin (Im z))" for z
    using cosh_Complex [of "Re z" "Im z"] by simp
  have m2: "sin z = Complex (sin (Re z) * cosh (Im z)) (cos (Re z) * sinh (Im z))" for z
    using sin_Complex [of "Re z" "Im z"] by simp
  have c1: "vals (cosh_op N x) ! i =
       Complex (cosh (Re (vals x ! i)) * cos (Im (vals x ! i)))
               (sinh (Re (vals x ! i)) * sin (Im (vals x ! i)))"
    using assms(3) by (simp add: v1)
  have c2: "vals (cosh_op N x) ! i = cosh (vals x ! i)"
    unfolding c1 by (rule m1 [symmetric])
  have s1: "vals (sin_op N x) ! i =
       Complex (sin (Re (vals x ! i)) * cosh (Im (vals x ! i)))
               (cos (Re (vals x ! i)) * sinh (Im (vals x ! i)))"
    using assms(3) by (simp add: v2)
  have s2: "vals (sin_op N x) ! i = sin (vals x ! i)"
    unfolding s1 by (rule m2 [symmetric])
  show ?thesis
    by (intro conjI) (rule e1 c1 c2 e2 s1 s2 d1)+
qed

lemma exact_native_kernels: "exact_kernels exact_native"
  unfolding exact_kernels_def by (simp add: exact_native_def)

theorem complex_cosh_sin_witness:
  "exact_kernels exact_native \<and> is_complex complex_single \<and> 0 < length (vals complex_single) \<and>
   vals (cosh_op exact_native complex_single) ! 0 = 1 \<and>
   vals (sin_op exact_native complex_single) ! 0 = 0"
proof -
  have c: "is_complex complex_single" by (simp add: is_complex_def complex_single_def)
  have i: "0 < length (vals complex_single)" by (simp add: complex_single_def)
  have v: "vals complex_single ! 0 = 0" by (simp add: complex_single_def zero_complex.code)
  have a: "vals (cosh_op exact_native complex_single) ! 0 = cosh (vals complex_single ! 0)"
    and b: "vals (sin_op exact_native complex_single) ! 0 = sin (vals complex_single ! 0)"
    using complex_cosh_sin [OF exact_native_kernels c i] by blast+
  show ?thesis
    using exact_native_kernels c i by (simp add: a b v)
qed

end
